theory Spec2Isabelle
  imports Main "HOL-Library.AList" "HOL-Library.Sublist" "HOL-Library.Monad_Syntax"
begin

section \<open>Python values, dictionaries and exceptions\<close>

text \<open>
  The planner works on the value that \<^verbatim>\<open>json.loads\<close> returns: a dynamically typed tree.
  A dictionary is an association list in insertion order (keys are strings, as in JSON);
  lookup is \<open>map_of\<close>, and \<^verbatim>\<open>d[k] = v\<close> is \<open>AList.update k v d\<close>, which overwrites in
  place or appends a new key at the end, as a Python dict does. A float is the pair
  \<open>(m, e)\<close> standing for \<open>m * 2 ^ e\<close>; no function of the program looks inside one.
  The strings inside a parsed value are of type \<open>string\<close>; the raw text of the model's
  response, which the sanitizer scans character by character, is a list of Unicode code
  points (see \<open>pystr\<close> below).
\<close>

datatype pyval =
    PNone
  | PBool bool
  | PInt int
  | PFloat int int
  | PStr string
  | PList "pyval list"
  | PDict "(string \<times> pyval) list"

type_synonym dict = "(string \<times> pyval) list"

text \<open>
  An exception is its class and its message \<^verbatim>\<open>str(e)\<close>. \<^verbatim>\<open>json.JSONDecodeError\<close> has a
  constructor of its own because \<^verbatim>\<open>generate_plan\<close> has a handler of its own for it; every
  other subclass of \<^verbatim>\<open>Exception\<close> is \<open>Raised cls msg\<close>.
\<close>

datatype exn = JSONDecodeError string | Raised string string

definition quoted :: "string \<Rightarrow> string" where
  "quoted s = [CHR 0x27] @ s @ [CHR 0x27]"

fun type_name :: "pyval \<Rightarrow> string" where
  "type_name PNone = ''NoneType''"
| "type_name (PBool _) = ''bool''"
| "type_name (PInt _) = ''int''"
| "type_name (PFloat _ _) = ''float''"
| "type_name (PStr _) = ''str''"
| "type_name (PList _) = ''list''"
| "type_name (PDict _) = ''dict''"

text \<open>\<^verbatim>\<open>len(v)\<close>: defined on lists, strings and dictionaries, a \<^verbatim>\<open>TypeError\<close> otherwise.\<close>

fun py_len :: "pyval \<Rightarrow> exn + nat" where
  "py_len (PList xs) = Inr (length xs)"
| "py_len (PStr s) = Inr (length s)"
| "py_len (PDict d) = Inr (length d)"
| "py_len v = Inl (Raised ''TypeError''
     (''object of type '' @ quoted (type_name v) @ '' has no len()''))"

text \<open>\<^verbatim>\<open>v.append(x)\<close>: only a list has the method; the list is extended in place.\<close>

fun py_append :: "pyval \<Rightarrow> pyval \<Rightarrow> exn + pyval" where
  "py_append (PList xs) x = Inr (PList (xs @ [x]))"
| "py_append v x = Inl (Raised ''AttributeError''
     (quoted (type_name v) @ '' object has no attribute '' @ quoted ''append''))"

text \<open>
  \<^verbatim>\<open>v[:3]\<close>: the first three items of a list or of a string. A dictionary has no slices:
  the lookup of the slice object raises (\<^verbatim>\<open>TypeError\<close>, the slice being unhashable, up to
  CPython 3.11; \<^verbatim>\<open>KeyError\<close> from 3.12 on. The model takes the former; nothing below depends
  on which).
\<close>

fun py_slice3 :: "pyval \<Rightarrow> exn + pyval" where
  "py_slice3 (PList xs) = Inr (PList (take 3 xs))"
| "py_slice3 (PStr s) = Inr (PStr (take 3 s))"
| "py_slice3 (PDict d) = Inl (Raised ''TypeError'' (''unhashable type: '' @ quoted ''slice''))"
| "py_slice3 v = Inl (Raised ''TypeError''
     (quoted (type_name v) @ '' object is not subscriptable''))"

section \<open>utils.py: clean_json_response\<close>

text \<open>
  The text that the model sends back is a Python \<^verbatim>\<open>str\<close>: a sequence of Unicode code
  points, of any size. It is a list of naturals here, so that every character the
  sanitizer can meet is in the model; \<open>ustr\<close> turns a literal into such a text.
\<close>

type_synonym pystr = "nat list"

abbreviation (input) cp :: "char \<Rightarrow> nat" where
  "cp c \<equiv> of_char c"

definition ustr :: "string \<Rightarrow> pystr" where
  "ustr s = map of_char s"

text \<open>
  Whitespace as \<^verbatim>\<open>\s\<close> in a \<^verbatim>\<open>str\<close> pattern and \<^verbatim>\<open>str.strip()\<close> both see it
  (CPython's \<^verbatim>\<open>Py_UNICODE_ISSPACE\<close>): tab to carriage return, the separators 28 to 31, the
  space, NEL (U+0085), the no-break space (U+00A0), U+1680, U+2000 to U+200A, U+2028,
  U+2029, U+202F, U+205F and U+3000.
\<close>

definition isspace :: "nat \<Rightarrow> bool" where
  "isspace n \<longleftrightarrow>
     (9 \<le> n \<and> n \<le> 13) \<or> (28 \<le> n \<and> n \<le> 32) \<or> n = 133 \<or> n = 160 \<or> n = 5760
     \<or> (8192 \<le> n \<and> n \<le> 8202) \<or> n = 8232 \<or> n = 8233 \<or> n = 8239 \<or> n = 8287
     \<or> n = 12288"

definition json_fence :: pystr where
  "json_fence = ustr ''```json''"

definition closing_fence :: pystr where
  "closing_fence = ustr ''```''"

text \<open>
  \<^verbatim>\<open>re.sub(r'```json\s*', '', response)\<close>: scanning from the left, every match of the
  opener and of the longest run of whitespace after it is deleted; the scan goes on after
  the match.
\<close>

function sub_json_fence :: "pystr \<Rightarrow> pystr" where
  "sub_json_fence [] = []"
| "sub_json_fence (c # cs) =
     (if prefix json_fence (c # cs)
      then sub_json_fence (dropWhile isspace (drop (length json_fence) (c # cs)))
      else c # sub_json_fence cs)"
  by pat_completeness auto
termination
proof (relation "measure length")
  show "wf (measure length)" by simp
next
  fix c :: nat and cs :: pystr
  have "length (dropWhile isspace (drop (length json_fence) (c # cs)))
          \<le> length (drop (length json_fence) (c # cs))"
    by (rule length_dropWhile_le)
  also have "\<dots> < length (c # cs)" by (simp add: json_fence_def ustr_def)
  finally show "(dropWhile isspace (drop (length json_fence) (c # cs)), c # cs) \<in> measure length"
    by simp
next
  fix c :: nat and cs :: pystr
  show "(cs, c # cs) \<in> measure length" by simp
qed

text \<open>
  \<^verbatim>\<open>re.sub(r'```\s*$', '', response)\<close>: the leftmost position where three backticks are
  followed by whitespace only, up to the end of the text, is where the match starts; it
  extends to the end, so nothing is left to scan after it.
\<close>

fun sub_closing_fence :: "pystr \<Rightarrow> pystr" where
  "sub_closing_fence [] = []"
| "sub_closing_fence (c # cs) =
     (if prefix closing_fence (c # cs) \<and> list_all isspace (drop (length closing_fence) (c # cs))
      then []
      else c # sub_closing_fence cs)"

text \<open>
  \<^verbatim>\<open>re.search(r'\{.*\}', response, re.DOTALL)\<close>. After an opening brace the greedy
  \<^verbatim>\<open>.*\<close> takes everything and gives characters back until a closing brace follows:
  \<open>match_dot_star_brace\<close> is the longest prefix that ends in a closing brace. The search
  tries the start positions from the left.
\<close>

fun match_dot_star_brace :: "pystr \<Rightarrow> pystr option" where
  "match_dot_star_brace [] = None"
| "match_dot_star_brace (c # cs) =
     (case match_dot_star_brace cs of
        Some m \<Rightarrow> Some (c # m)
      | None \<Rightarrow> if c = cp (CHR ''}'') then Some [c] else None)"

fun search_braces :: "pystr \<Rightarrow> pystr option" where
  "search_braces [] = None"
| "search_braces (c # cs) =
     (if c = cp (CHR ''{'') then
        (case match_dot_star_brace cs of
           Some m \<Rightarrow> Some (c # m)
         | None \<Rightarrow> search_braces cs)
      else search_braces cs)"

text \<open>\<^verbatim>\<open>s.strip()\<close>.\<close>

definition py_strip :: "pystr \<Rightarrow> pystr" where
  "py_strip s = rev (dropWhile isspace (rev (dropWhile isspace s)))"

definition clean_json_response :: "pystr \<Rightarrow> pystr" where
  "clean_json_response response0 =
     (let response = sub_json_fence response0;
          response = sub_closing_fence response
      in case search_braces response of
           Some json_match \<Rightarrow> json_match
         | None \<Rightarrow> py_strip response)"

section \<open>utils.py: validate_json_structure\<close>

definition required_fields :: dict where
  "required_fields =
    [(''project_name'', PStr ''Untitled Project''),
     (''project_summary'', PStr ''No summary provided''),
     (''total_weeks'', PInt 4),
     (''milestones'', PList []),
     (''risks'', PList []),
     (''monitoring_checkpoints'', PList []),
     (''parallel_opportunities'', PList [])]"

definition generic_risk :: pyval where
  "generic_risk = PDict
    [(''title'', PStr ''Generic Risk''),
     (''description'', PStr ''Standard project risk''),
     (''impact'', PStr ''Medium''),
     (''probability'', PStr ''Medium''),
     (''mitigation'', PStr ''Monitor and adjust as needed'')]"

text \<open>The body of the \<^verbatim>\<open>for\<close> loop: \<^verbatim>\<open>if field not in data: data[field] = default_value\<close>.\<close>

definition ensure_field :: "dict \<Rightarrow> string \<times> pyval \<Rightarrow> dict" where
  "ensure_field data fd =
     (case map_of data (fst fd) of
        None \<Rightarrow> AList.update (fst fd) (snd fd) data
      | Some _ \<Rightarrow> data)"

text \<open>The whole \<^verbatim>\<open>for field, default_value in required_fields.items()\<close> loop.\<close>

definition ensure_required :: "dict \<Rightarrow> dict" where
  "ensure_required data = foldl ensure_field data required_fields"

text \<open>
  The \<^verbatim>\<open>while len(data['risks']) < 3: data['risks'].append({...})\<close> loop, on the value bound
  to \<^verbatim>\<open>risks\<close>. Each round either raises or makes the value one longer.
\<close>

function append_until_3 :: "pyval \<Rightarrow> exn + pyval" where
  "append_until_3 r =
     (case py_len r of
        Inl e \<Rightarrow> Inl e
      | Inr n \<Rightarrow>
          if n < 3 then
            (case py_append r generic_risk of
               Inl e \<Rightarrow> Inl e
             | Inr r' \<Rightarrow> append_until_3 r')
          else Inr r)"
  by pat_completeness auto
termination
proof (relation "measure (\<lambda>r. case py_len r of Inl _ \<Rightarrow> 0 | Inr n \<Rightarrow> 3 - n)")
  show "wf (measure (\<lambda>r. case py_len r of Inl _ \<Rightarrow> 0 | Inr n \<Rightarrow> 3 - n))"
    by simp
next
  fix r :: pyval and n :: nat and r' :: pyval
  assume "py_len r = Inr n" "n < 3" "py_append r generic_risk = Inr r'"
  then show "(r', r) \<in> measure (\<lambda>r. case py_len r of Inl _ \<Rightarrow> 0 | Inr n \<Rightarrow> 3 - n)"
    by (cases r) auto
qed

text \<open>
  \<^verbatim>\<open>validate_json_structure(data)\<close> for a dictionary \<open>data\<close>. The source mutates \<open>data\<close>
  and returns it; the model returns the new dictionary. \<open>Inl\<close> is the exception that
  escapes the function.
\<close>

definition validate_json_structure :: "dict \<Rightarrow> exn + dict" where
  "validate_json_structure data0 =
     (let data = ensure_required data0 in
      case map_of data ''risks'' of
        None \<Rightarrow> Inl (Raised ''KeyError'' (quoted ''risks''))
      | Some r \<Rightarrow>
          (case py_len r of
             Inl e \<Rightarrow> Inl e
           | Inr n \<Rightarrow>
               if n < 3 then
                 (case append_until_3 r of
                    Inl e \<Rightarrow> Inl e
                  | Inr r' \<Rightarrow> Inr (AList.update ''risks'' r' data))
               else if n > 3 then
                 (case py_slice3 r of
                    Inl e \<Rightarrow> Inl e
                  | Inr r' \<Rightarrow> Inr (AList.update ''risks'' r' data))
               else Inr data))"

section \<open>utils.py: format_error_message\<close>

fun class_name :: "exn \<Rightarrow> string" where
  "class_name (JSONDecodeError _) = ''JSONDecodeError''"
| "class_name (Raised cls _) = cls"

fun message :: "exn \<Rightarrow> string" where
  "message (JSONDecodeError msg) = msg"
| "message (Raised _ msg) = msg"

definition format_error_message :: "exn \<Rightarrow> string" where
  "format_error_message error = ''Error ('' @ class_name error @ ''): '' @ message error"

section \<open>models.py: the data model\<close>

record Risk =
  title :: string
  description :: string
  impact :: string
  probability :: string
  mitigation :: string

record Task =
  name :: string
  description :: string
  estimated_hours :: int
  dependencies :: "string list"
  can_parallel :: bool

record Milestone =
  name :: string
  description :: string
  week_number :: int
  deliverables :: "string list"
  tasks :: "Task list"
  success_criteria :: "string list"

record Plan =
  project_name :: string
  project_summary :: string
  total_weeks :: int
  milestones :: "Milestone list"
  risks :: "Risk list"
  monitoring_checkpoints :: "string list"
  parallel_opportunities :: "string list"

subsection \<open>Construction\<close>

text \<open>
  The classes are pydantic models; \<^verbatim>\<open>Plan(**plan_data)\<close> runs pydantic's validation of the
  declared field types. What pydantic accepts for a \<^verbatim>\<open>str\<close>, an \<^verbatim>\<open>int\<close> and a \<^verbatim>\<open>bool\<close>
  field (its coercions), and the text of the \<^verbatim>\<open>ValidationError\<close> it raises, belong to the
  library: they are parameters of the model. The structure is the declarations': which
  fields there are, which are required (\<^verbatim>\<open>Field(...)\<close>) and which have a default, that a
  \<^verbatim>\<open>List\<close> field takes a list and validates each item, that a model field takes a
  dictionary, and that keys which are not fields are ignored.
\<close>

record pydantic =
  str_validator :: "pyval \<Rightarrow> string option"
  int_validator :: "pyval \<Rightarrow> int option"
  bool_validator :: "pyval \<Rightarrow> bool option"
  error_text :: "dict \<Rightarrow> string"

definition required :: "dict \<Rightarrow> string \<Rightarrow> (pyval \<Rightarrow> 'a option) \<Rightarrow> 'a option" where
  "required d k validate = (case map_of d k of None \<Rightarrow> None | Some v \<Rightarrow> validate v)"

definition with_default :: "dict \<Rightarrow> string \<Rightarrow> (pyval \<Rightarrow> 'a option) \<Rightarrow> 'a \<Rightarrow> 'a option" where
  "with_default d k validate dflt = (case map_of d k of None \<Rightarrow> Some dflt | Some v \<Rightarrow> validate v)"

definition list_of :: "(pyval \<Rightarrow> 'a option) \<Rightarrow> pyval \<Rightarrow> 'a list option" where
  "list_of validate v = (case v of PList xs \<Rightarrow> those (map validate xs) | _ \<Rightarrow> None)"

definition model_of :: "(dict \<Rightarrow> 'a option) \<Rightarrow> pyval \<Rightarrow> 'a option" where
  "model_of validate v = (case v of PDict d \<Rightarrow> validate d | _ \<Rightarrow> None)"

definition Risk_fields :: "pydantic \<Rightarrow> dict \<Rightarrow> Risk option" where
  "Risk_fields P d = do {
     t \<leftarrow> required d ''title'' (str_validator P);
     de \<leftarrow> required d ''description'' (str_validator P);
     i \<leftarrow> required d ''impact'' (str_validator P);
     p \<leftarrow> required d ''probability'' (str_validator P);
     m \<leftarrow> required d ''mitigation'' (str_validator P);
     Some \<lparr>title = t, description = de, impact = i, probability = p, mitigation = m\<rparr>
   }"

definition Task_fields :: "pydantic \<Rightarrow> dict \<Rightarrow> Task option" where
  "Task_fields P d = do {
     n \<leftarrow> required d ''name'' (str_validator P);
     de \<leftarrow> required d ''description'' (str_validator P);
     h \<leftarrow> required d ''estimated_hours'' (int_validator P);
     deps \<leftarrow> with_default d ''dependencies'' (list_of (str_validator P)) [];
     par \<leftarrow> with_default d ''can_parallel'' (bool_validator P) False;
     Some \<lparr>Task.name = n, description = de, estimated_hours = h, dependencies = deps,
           can_parallel = par\<rparr>
   }"

definition Milestone_fields :: "pydantic \<Rightarrow> dict \<Rightarrow> Milestone option" where
  "Milestone_fields P d = do {
     n \<leftarrow> required d ''name'' (str_validator P);
     de \<leftarrow> required d ''description'' (str_validator P);
     w \<leftarrow> required d ''week_number'' (int_validator P);
     dl \<leftarrow> required d ''deliverables'' (list_of (str_validator P));
     ts \<leftarrow> required d ''tasks'' (list_of (model_of (Task_fields P)));
     sc \<leftarrow> required d ''success_criteria'' (list_of (str_validator P));
     Some \<lparr>Milestone.name = n, description = de, week_number = w, deliverables = dl,
           tasks = ts, success_criteria = sc\<rparr>
   }"

definition Plan_fields :: "pydantic \<Rightarrow> dict \<Rightarrow> Plan option" where
  "Plan_fields P d = do {
     n \<leftarrow> required d ''project_name'' (str_validator P);
     s \<leftarrow> required d ''project_summary'' (str_validator P);
     w \<leftarrow> required d ''total_weeks'' (int_validator P);
     ms \<leftarrow> required d ''milestones'' (list_of (model_of (Milestone_fields P)));
     rs \<leftarrow> required d ''risks'' (list_of (model_of (Risk_fields P)));
     mc \<leftarrow> required d ''monitoring_checkpoints'' (list_of (str_validator P));
     po \<leftarrow> required d ''parallel_opportunities'' (list_of (str_validator P));
     Some \<lparr>project_name = n, project_summary = s, total_weeks = w, milestones = ms,
           risks = rs, monitoring_checkpoints = mc, parallel_opportunities = po\<rparr>
   }"

text \<open>\<^verbatim>\<open>Plan(**data)\<close>: the plan, or the \<^verbatim>\<open>ValidationError\<close> that pydantic raises.\<close>

definition Plan_construct :: "pydantic \<Rightarrow> dict \<Rightarrow> exn + Plan" where
  "Plan_construct P d =
     (case Plan_fields P d of
        Some plan \<Rightarrow> Inr plan
      | None \<Rightarrow> Inl (Raised ''ValidationError'' (error_text P d)))"

subsection \<open>to_markdown\<close>

text \<open>How an f-string renders an \<^verbatim>\<open>int\<close>: decimal digits, with a minus sign when negative.\<close>

function str_nat :: "nat \<Rightarrow> string" where
  "str_nat n =
     (if n < 10 then [char_of (48 + n)]
      else str_nat (n div 10) @ [char_of (48 + n mod 10)])"
  by pat_completeness auto
termination
  by (relation "measure id") auto

definition str_int :: "int \<Rightarrow> string" where
  "str_int i = (if i < 0 then CHR ''-'' # str_nat (nat (- i)) else str_nat (nat i))"

text \<open>\<^verbatim>\<open>sep.join(xs)\<close>.\<close>

fun join :: "string \<Rightarrow> string list \<Rightarrow> string" where
  "join sep [] = []"
| "join sep [x] = x"
| "join sep (x # y # ys) = x @ sep @ join sep (y # ys)"

definition nl :: string where
  "nl = [CHR 10]"

text \<open>
  Every loop of \<^verbatim>\<open>to_markdown\<close> appends to the string \<^verbatim>\<open>md\<close>. A loop body is a function
  from \<^verbatim>\<open>md\<close> and the item to the new \<^verbatim>\<open>md\<close>; the loop is \<open>foldl\<close>.
\<close>

definition bullet_md :: "string \<Rightarrow> string \<Rightarrow> string" where
  "bullet_md md item = md @ ''- '' @ item @ nl"

definition task_md :: "string \<Rightarrow> Task \<Rightarrow> string" where
  "task_md md0 task =
     (let parallel_note = (if can_parallel task then '' (Can be done in parallel)'' else '''');
          md = md0 @ ''- **'' @ Task.name task @ ''** ('' @ str_int (estimated_hours task)
                 @ ''h)'' @ parallel_note @ nl;
          md = md @ ''  '' @ Task.description task @ nl
      in if dependencies task \<noteq> []
         then md @ ''  Dependencies: '' @ join '', '' (dependencies task) @ nl
         else md)"

definition milestone_md :: "string \<Rightarrow> Milestone \<Rightarrow> string" where
  "milestone_md md0 milestone =
     (let md = md0 @ ''### '' @ Milestone.name milestone @ '' (Week ''
                 @ str_int (week_number milestone) @ '')'' @ nl;
          md = md @ Milestone.description milestone @ nl @ nl;
          md = md @ ''**Deliverables:**'' @ nl;
          md = foldl bullet_md md (deliverables milestone);
          md = md @ nl @ ''**Tasks:**'' @ nl;
          md = foldl task_md md (tasks milestone);
          md = md @ nl @ ''**Success Criteria:**'' @ nl;
          md = foldl bullet_md md (success_criteria milestone)
      in md @ nl)"

definition risk_md :: "string \<Rightarrow> nat \<times> Risk \<Rightarrow> string" where
  "risk_md md0 ir =
     (let i = fst ir; risk = snd ir;
          md = md0 @ ''### '' @ str_int (int i) @ ''. '' @ title risk @ nl;
          md = md @ ''**Description:** '' @ Risk.description risk @ nl;
          md = md @ ''**Impact:** '' @ impact risk @ '' | **Probability:** ''
                 @ probability risk @ nl
      in md @ ''**Mitigation:** '' @ mitigation risk @ nl @ nl)"

text \<open>\<^verbatim>\<open>enumerate(xs, 1)\<close>.\<close>

definition enumerate1 :: "'a list \<Rightarrow> (nat \<times> 'a) list" where
  "enumerate1 xs = zip [1 ..< Suc (length xs)] xs"

definition to_markdown :: "Plan \<Rightarrow> string" where
  "to_markdown self =
     (let md = ''# '' @ project_name self @ nl @ nl;
          md = md @ ''**Project Summary:** '' @ project_summary self @ nl @ nl;
          md = md @ ''**Total Duration:** '' @ str_int (total_weeks self) @ '' weeks'' @ nl @ nl;
          md = md @ ''## Milestones'' @ nl @ nl;
          md = foldl milestone_md md (milestones self);
          md = md @ ''## Top 3 Risks'' @ nl @ nl;
          md = foldl risk_md md (enumerate1 (risks self));
          md = md @ ''## Monitoring Checkpoints'' @ nl @ nl;
          md = foldl bullet_md md (monitoring_checkpoints self);
          md = md @ nl @ ''## Parallel Work Opportunities'' @ nl @ nl;
          md = foldl bullet_md md (parallel_opportunities self)
      in md)"


section \<open>planner.py: generate_plan\<close>

text \<open>
  \<^verbatim>\<open>validate_json_structure(plan_data)\<close> on whatever \<^verbatim>\<open>json.loads\<close> returned. On a value
  that is not a dictionary the function always raises \<^verbatim>\<open>TypeError\<close>: a list takes no string
  index, neither in the assignment of a default nor in \<^verbatim>\<open>data['risks']\<close>; a string takes
  no item assignment, and no string index when it contains all seven field names; the
  other values do not support \<^verbatim>\<open>in\<close>.
\<close>

fun validate_value :: "pyval \<Rightarrow> exn + dict" where
  "validate_value (PDict d) = validate_json_structure d"
| "validate_value (PList xs) =
     Inl (Raised ''TypeError'' ''list indices must be integers or slices, not str'')"
| "validate_value (PStr s) =
     Inl (Raised ''TypeError''
       (if list_all (\<lambda>fd. sublist (fst fd) s) required_fields
        then ''string indices must be integers, not '' @ quoted ''str''
        else quoted ''str'' @ '' object does not support item assignment''))"
| "validate_value v =
     Inl (Raised ''TypeError'' (''argument of type '' @ quoted (type_name v) @ '' is not iterable''))"

text \<open>
  The body of the \<^verbatim>\<open>try\<close> block. Two things come from outside the program and are
  parameters: \<open>llm\<close>, the outcome of the chat completion request for a brief, up to
  \<^verbatim>\<open>response.choices[0].message.content\<close> (an exception, or the content, which may be
  \<^verbatim>\<open>None\<close>); and \<open>loads\<close>, which is \<^verbatim>\<open>json.loads\<close>. A content of \<^verbatim>\<open>None\<close> makes \<^verbatim>\<open>re.sub\<close>
  raise \<^verbatim>\<open>TypeError\<close> inside \<^verbatim>\<open>clean_json_response\<close>.
\<close>

definition try_block ::
  "pydantic \<Rightarrow> (string \<Rightarrow> exn + pystr option) \<Rightarrow> (pystr \<Rightarrow> exn + pyval) \<Rightarrow> string
     \<Rightarrow> exn + Plan" where
  "try_block P llm loads project_brief =
     (case llm project_brief of
        Inl e \<Rightarrow> Inl e
      | Inr None \<Rightarrow>
          Inl (Raised ''TypeError''
            (''expected string or bytes-like object, got '' @ quoted ''NoneType''))
      | Inr (Some content) \<Rightarrow>
          (case loads (clean_json_response content) of
             Inl e \<Rightarrow> Inl e
           | Inr plan_data \<Rightarrow>
               (case validate_value plan_data of
                  Inl e \<Rightarrow> Inl e
                | Inr plan_data' \<Rightarrow> Plan_construct P plan_data')))"

text \<open>
  \<^verbatim>\<open>generate_plan\<close>: the \<^verbatim>\<open>try\<close> block and its two handlers,
  \<^verbatim>\<open>except json.JSONDecodeError\<close> first, \<^verbatim>\<open>except Exception\<close> second. The result is the pair
  \<^verbatim>\<open>(plan, error message)\<close>, with \<open>None\<close> for Python's \<^verbatim>\<open>None\<close>.
\<close>

definition generate_plan ::
  "pydantic \<Rightarrow> (string \<Rightarrow> exn + pystr option) \<Rightarrow> (pystr \<Rightarrow> exn + pyval) \<Rightarrow> string
     \<Rightarrow> Plan option \<times> string option" where
  "generate_plan P llm loads project_brief =
     (case try_block P llm loads project_brief of
        Inr plan \<Rightarrow> (Some plan, None)
      | Inl (JSONDecodeError msg) \<Rightarrow> (None, Some (''Invalid JSON response from AI: '' @ msg))
      | Inl e \<Rightarrow> (None, Some (format_error_message e)))"

section \<open>Auxiliary notions for the statements\<close>

text \<open>
  The validators restricted to values that already have the declared type. Every pydantic
  release accepts such values unchanged; this instance serves to evaluate construction on
  concrete, well-typed input.
\<close>

definition exact_pydantic :: pydantic where
  "exact_pydantic =
     \<lparr>str_validator = (\<lambda>v. case v of PStr s \<Rightarrow> Some s | _ \<Rightarrow> None),
      int_validator = (\<lambda>v. case v of PInt i \<Rightarrow> Some i | _ \<Rightarrow> None),
      bool_validator = (\<lambda>v. case v of PBool b \<Rightarrow> Some b | _ \<Rightarrow> None),
      error_text = (\<lambda>d. ''validation errors for Plan'')\<rparr>"

text \<open>
  Stand-ins for the two outside parties, to run \<open>generate_plan\<close> on concrete cases: a
  provider call that raises, one that returns a content, a parser that raises, one that
  returns a value.
\<close>

definition provider_raises :: "exn \<Rightarrow> string \<Rightarrow> exn + pystr option" where
  "provider_raises e brief = Inl e"

definition provider_returns :: "pystr \<Rightarrow> string \<Rightarrow> exn + pystr option" where
  "provider_returns content brief = Inr (Some content)"

definition parser_raises :: "exn \<Rightarrow> pystr \<Rightarrow> exn + pyval" where
  "parser_raises e text = Inl e"

definition parser_returns :: "pyval \<Rightarrow> pystr \<Rightarrow> exn + pyval" where
  "parser_returns v text = Inr v"

text \<open>That a pydantic instance accepts values of the declared type unchanged.\<close>

definition accepts_exact :: "pydantic \<Rightarrow> bool" where
  "accepts_exact P \<longleftrightarrow>
     (\<forall>s. str_validator P (PStr s) = Some s)
     \<and> (\<forall>i. int_validator P (PInt i) = Some i)
     \<and> (\<forall>b. bool_validator P (PBool b) = Some b)"

text \<open>The field-for-field dictionary of a plan (pydantic's \<^verbatim>\<open>model_dump\<close>).\<close>

definition Risk_dump :: "Risk \<Rightarrow> pyval" where
  "Risk_dump r = PDict
     [(''title'', PStr (title r)),
      (''description'', PStr (Risk.description r)),
      (''impact'', PStr (impact r)),
      (''probability'', PStr (probability r)),
      (''mitigation'', PStr (mitigation r))]"

definition Task_dump :: "Task \<Rightarrow> pyval" where
  "Task_dump t = PDict
     [(''name'', PStr (Task.name t)),
      (''description'', PStr (Task.description t)),
      (''estimated_hours'', PInt (estimated_hours t)),
      (''dependencies'', PList (map PStr (dependencies t))),
      (''can_parallel'', PBool (can_parallel t))]"

definition Milestone_dump :: "Milestone \<Rightarrow> pyval" where
  "Milestone_dump m = PDict
     [(''name'', PStr (Milestone.name m)),
      (''description'', PStr (Milestone.description m)),
      (''week_number'', PInt (week_number m)),
      (''deliverables'', PList (map PStr (deliverables m))),
      (''tasks'', PList (map Task_dump (tasks m))),
      (''success_criteria'', PList (map PStr (success_criteria m)))]"

definition Plan_dump :: "Plan \<Rightarrow> dict" where
  "Plan_dump p =
     [(''project_name'', PStr (project_name p)),
      (''project_summary'', PStr (project_summary p)),
      (''total_weeks'', PInt (total_weeks p)),
      (''milestones'', PList (map Milestone_dump (milestones p))),
      (''risks'', PList (map Risk_dump (risks p))),
      (''monitoring_checkpoints'', PList (map PStr (monitoring_checkpoints p))),
      (''parallel_opportunities'', PList (map PStr (parallel_opportunities p)))]"

text \<open>
  The values of \<^verbatim>\<open>risks\<close> on which the function returns: an absent key, a list, a string
  of three characters or more, a dictionary of exactly three keys.
\<close>

fun risks_accepted :: "pyval option \<Rightarrow> bool" where
  "risks_accepted None = True"
| "risks_accepted (Some (PList rs)) = True"
| "risks_accepted (Some (PStr s)) = (3 \<le> length s)"
| "risks_accepted (Some (PDict d)) = (length d = 3)"
| "risks_accepted (Some v) = False"

text \<open>The value invariants that the specification's data model lists.\<close>

definition level :: "string \<Rightarrow> bool" where
  "level s \<longleftrightarrow> s = ''Low'' \<or> s = ''Medium'' \<or> s = ''High''"

definition risk_levels_ok :: "Plan \<Rightarrow> bool" where
  "risk_levels_ok p \<longleftrightarrow> list_all (\<lambda>r. level (impact r) \<and> level (probability r)) (risks p)"

definition hours_ok :: "Plan \<Rightarrow> bool" where
  "hours_ok p \<longleftrightarrow>
     list_all (\<lambda>m. list_all (\<lambda>t. 0 \<le> estimated_hours t) (tasks m)) (milestones p)"

definition weeks_ok :: "Plan \<Rightarrow> bool" where
  "weeks_ok p \<longleftrightarrow> list_all (\<lambda>m. 0 < week_number m) (milestones p)"

definition deliverables_ok :: "Plan \<Rightarrow> bool" where
  "deliverables_ok p \<longleftrightarrow> list_all (\<lambda>m. deliverables m \<noteq> []) (milestones p)"

definition total_weeks_ok :: "Plan \<Rightarrow> bool" where
  "total_weeks_ok p \<longleftrightarrow> 0 < total_weeks p"

section \<open>The algorithm of clean_json_response in words\<close>

text \<open>
  The steps of the algorithm as a reader would state them, without a regular expression
  engine. The opener occurs at position \<open>i\<close> of a text when the seven characters from \<open>i\<close>
  on are \<^verbatim>\<open>```json\<close>. To remove the openers: when the opener occurs nowhere, the text stays
  as it is; otherwise the text before its first occurrence is kept, the opener and all the
  whitespace that follows it are dropped, and the removal goes on in what comes after.
\<close>

definition opener_at :: "pystr \<Rightarrow> nat \<Rightarrow> bool" where
  "opener_at s i \<longleftrightarrow> take (length json_fence) (drop i s) = json_fence"

definition first_opener :: "pystr \<Rightarrow> nat option" where
  "first_opener s = find (opener_at s) [0 ..< length s]"

function remove_openers :: "pystr \<Rightarrow> pystr" where
  "remove_openers s =
     (case first_opener s of
        None \<Rightarrow> s
      | Some i \<Rightarrow>
          take i s @ remove_openers (dropWhile isspace (drop (i + length json_fence) s)))"
  by pat_completeness auto
termination
proof (relation "measure length")
  show "wf (measure length)" by simp
next
  fix s :: pystr and i :: nat
  assume "first_opener s = Some i"
  then have "opener_at s i"
    by (auto simp: first_opener_def find_Some_iff)
  then have "length (take (length json_fence) (drop i s)) = length json_fence"
    by (simp add: opener_at_def)
  then have m: "min (length s - i) (length json_fence) = length json_fence" by simp
  have pos: "0 < length json_fence" by (simp add: json_fence_def ustr_def)
  from m pos have "i + length json_fence \<le> length s" by arith
  moreover have "length (drop (i + length json_fence) s) = length s - (i + length json_fence)"
    by simp
  ultimately have "length (drop (i + length json_fence) s) < length s"
    using pos by arith
  moreover have "length (dropWhile isspace (drop (i + length json_fence) s))
                   \<le> length (drop (i + length json_fence) s)"
    by (rule length_dropWhile_le)
  ultimately show "(dropWhile isspace (drop (i + length json_fence) s), s) \<in> measure length"
    by simp
qed

text \<open>
  The span from the first opening brace through the last closing brace, and the removal
  of a closing fence that only whitespace follows.
\<close>

definition first_to_last_brace :: "pystr \<Rightarrow> pystr option" where
  "first_to_last_brace s =
     (let t = dropWhile (\<lambda>c. c \<noteq> cp (CHR ''{'')) s;
          u = rev (dropWhile (\<lambda>c. c \<noteq> cp (CHR ''}'')) (rev t))
      in if u = [] then None else Some u)"

definition strip_trailing_closer :: "pystr \<Rightarrow> pystr" where
  "strip_trailing_closer s =
     (let t = rev (dropWhile isspace (rev s))
      in if suffix closing_fence t then take (length t - length closing_fence) t else s)"

text \<open>
  The algorithm as the specification words it: a leading opener is stripped, a trailing
  closer is stripped, the brace span of the rest is returned, and without a brace pair the
  original text is returned trimmed.
\<close>

definition strip_leading_opener :: "pystr \<Rightarrow> pystr" where
  "strip_leading_opener s =
     (if prefix json_fence s then drop (length json_fence) s else s)"

definition clean_json_response_spec :: "pystr \<Rightarrow> pystr" where
  "clean_json_response_spec raw =
     (let remaining = strip_trailing_closer (strip_leading_opener raw)
      in case first_to_last_brace remaining of
           Some span \<Rightarrow> span
         | None \<Rightarrow> py_strip raw)"

text \<open>
  The algorithm as the code performs it: every opener is removed, wherever it stands, and
  without a brace pair it is the remaining text that is returned trimmed.
\<close>

definition clean_json_response_amended :: "pystr \<Rightarrow> pystr" where
  "clean_json_response_amended raw =
     (let remaining = strip_trailing_closer (remove_openers raw)
      in case first_to_last_brace remaining of
           Some span \<Rightarrow> span
         | None \<Rightarrow> py_strip remaining)"

text \<open>Whether the opener occurs somewhere in a text.\<close>

fun has_json_fence :: "pystr \<Rightarrow> bool" where
  "has_json_fence [] = False"
| "has_json_fence (c # cs) = (prefix json_fence (c # cs) \<or> has_json_fence cs)"

section \<open>Properties of validate_json_structure\<close>

declare append_until_3.simps [simp del]


lemma map_of_ensure_field:
  "map_of (ensure_field d fd) k =
     (case map_of d k of Some v \<Rightarrow> Some v | None \<Rightarrow> if k = fst fd then Some (snd fd) else None)"
  by (auto simp: ensure_field_def update_conv' split: option.splits)

lemma map_of_foldl_ensure:
  "map_of (foldl ensure_field d fs) k =
     (case map_of d k of Some v \<Rightarrow> Some v | None \<Rightarrow> map_of fs k)"
proof (induction fs arbitrary: d)
  case Nil
  then show ?case by (simp split: option.splits)
next
  case (Cons fd fs)
  show ?case
    by (cases fd) (simp add: Cons.IH map_of_ensure_field split: option.splits)
qed

lemma map_of_ensure_required:
  "map_of (ensure_required d) k =
     (case map_of d k of Some v \<Rightarrow> Some v | None \<Rightarrow> map_of required_fields k)"
  by (simp add: ensure_required_def map_of_foldl_ensure)

lemma foldl_ensure_present:
  "\<forall>f \<in> fst ` set fs. map_of d f \<noteq> None \<Longrightarrow> foldl ensure_field d fs = d"
  by (induction fs arbitrary: d) (auto simp: ensure_field_def)

lemma append_until_3_list:
  "append_until_3 (PList rs) = Inr (PList (rs @ replicate (3 - length rs) generic_risk))"
proof (induction "3 - length rs" arbitrary: rs)
  case 0
  then show ?case by (subst append_until_3.simps) simp
next
  case (Suc k)
  have lt: "length rs < 3" using Suc.hyps(2) by arith
  have k: "k = 3 - length (rs @ [generic_risk])" using Suc.hyps(2) by simp
  have "append_until_3 (PList rs) = append_until_3 (PList (rs @ [generic_risk]))"
    using lt by (subst append_until_3.simps) simp
  also have "\<dots> = Inr (PList ((rs @ [generic_risk]) @ replicate k generic_risk))"
    using Suc.hyps(1) [OF k] k by simp
  also have "(rs @ [generic_risk]) @ replicate k generic_risk
      = rs @ replicate (3 - length rs) generic_risk"
    using Suc.hyps(2) [symmetric] by simp
  finally show ?case .
qed

lemma append_until_3_Inr:
  assumes "append_until_3 r = Inr r'" and "py_len r = Inr n" and "n < 3"
  shows "\<exists>rs. r = PList rs \<and> r' = PList (rs @ replicate (3 - length rs) generic_risk)"
proof (cases r)
  case (PList rs)
  with assms(1) show ?thesis by (simp add: append_until_3_list)
next
  case (PStr s)
  with assms show ?thesis by (subst (asm) append_until_3.simps) simp
next
  case (PDict d)
  with assms show ?thesis by (subst (asm) append_until_3.simps) simp
qed (use assms in auto)

lemma py_slice3_len:
  "py_slice3 r = Inr r' \<Longrightarrow> py_len r = Inr n \<Longrightarrow> 3 < n \<Longrightarrow> py_len r' = Inr 3"
  by (cases r) auto

lemma validate_Inr:
  assumes "validate_json_structure data = Inr out"
  shows "\<exists>r'. py_len r' = Inr 3 \<and> map_of out = (map_of (ensure_required data))(''risks'' \<mapsto> r')"
proof -
  let ?d = "ensure_required data"
  obtain r where r: "map_of ?d ''risks'' = Some r"
    using assms by (auto simp: validate_json_structure_def Let_def split: option.splits)
  obtain n where n: "py_len r = Inr n"
    using assms r by (auto simp: validate_json_structure_def Let_def split: sum.splits)
  consider "n < 3" | "n = 3" | "3 < n" by arith
  then show ?thesis
  proof cases
    case 1
    then obtain r' where r': "append_until_3 r = Inr r'" and out: "out = AList.update ''risks'' r' ?d"
      using assms r n by (auto simp: validate_json_structure_def Let_def split: sum.splits)
    from append_until_3_Inr [OF r' n 1] n 1 have "py_len r' = Inr 3" by auto
    then show ?thesis using out by (auto simp: update_conv')
  next
    case 2
    then have "out = ?d"
      using assms r n by (auto simp: validate_json_structure_def Let_def)
    moreover have "(map_of ?d)(''risks'' \<mapsto> r) = map_of ?d"
      using r by (auto simp: fun_eq_iff)
    ultimately show ?thesis using n 2 by auto
  next
    case 3
    then obtain r' where r': "py_slice3 r = Inr r'" and out: "out = AList.update ''risks'' r' ?d"
      using assms r n by (auto simp: validate_json_structure_def Let_def split: sum.splits)
    from py_slice3_len [OF r' n 3] show ?thesis using out by (auto simp: update_conv')
  qed
qed


lemma map_of_required_risks: "map_of required_fields ''risks'' = Some (PList [])"
  by (simp add: required_fields_def)

lemma required_keys:
  "fst ` set required_fields = {''project_name'', ''project_summary'', ''total_weeks'',
     ''milestones'', ''risks'', ''monitoring_checkpoints'', ''parallel_opportunities''}"
  by (simp add: required_fields_def)

lemma ensured_risks:
  "map_of (ensure_required data) ''risks'' =
     Some (case map_of data ''risks'' of None \<Rightarrow> PList [] | Some v \<Rightarrow> v)"
  by (simp add: map_of_ensure_required map_of_required_risks split: option.splits)

lemma validate_list:
  assumes "map_of (ensure_required data) ''risks'' = Some (PList rs)"
  shows "validate_json_structure data =
     Inr (if length rs = 3 then ensure_required data
          else AList.update ''risks''
                 (PList (take 3 rs @ replicate (3 - length rs) generic_risk))
                 (ensure_required data))"
proof -
  consider "length rs < 3" | "length rs = 3" | "3 < length rs" by arith
  then show ?thesis
  proof cases
    case 1
    then show ?thesis using assms
      by (simp add: validate_json_structure_def append_until_3_list)
  next
    case 2
    then show ?thesis using assms by (simp add: validate_json_structure_def)
  next
    case 3
    then show ?thesis using assms by (simp add: validate_json_structure_def)
  qed
qed

lemma append_until_3_not_list:
  assumes "py_len r = Inr n" and "n < 3" and "\<forall>rs. r \<noteq> PList rs"
  shows "\<exists>e. append_until_3 r = Inl e"
proof (cases "append_until_3 r")
  case (Inr r')
  from append_until_3_Inr [OF Inr assms(1,2)] assms(3) show ?thesis by auto
qed simp

lemma validate_returns:
  "(\<exists>out. validate_json_structure data = Inr out) = risks_accepted (map_of data ''risks'')"
proof (cases "map_of data ''risks''")
  case None
  then have "map_of (ensure_required data) ''risks'' = Some (PList [])"
    by (simp add: ensured_risks)
  from validate_list [OF this] None show ?thesis by simp
next
  case (Some v)
  then have e: "map_of (ensure_required data) ''risks'' = Some v"
    by (simp add: ensured_risks)
  show ?thesis
  proof (cases v)
    case (PList rs)
    with validate_list [of data rs] e Some show ?thesis by simp
  next
    case (PStr s)
    consider "length s < 3" | "3 \<le> length s" by arith
    then show ?thesis
    proof cases
      case 1
      with append_until_3_not_list [of v "length s"] PStr
      obtain x where "append_until_3 v = Inl x" by auto
      with 1 PStr Some e show ?thesis by (simp add: validate_json_structure_def)
    next
      case 2
      with PStr Some e show ?thesis by (simp add: validate_json_structure_def Let_def)
    qed
  next
    case (PDict d)
    consider "length d < 3" | "length d = 3" | "3 < length d" by arith
    then show ?thesis
    proof cases
      case 1
      with append_until_3_not_list [of v "length d"] PDict
      obtain x where "append_until_3 v = Inl x" by auto
      with 1 PDict Some e show ?thesis by (simp add: validate_json_structure_def)
    next
      case 2
      with PDict Some e show ?thesis by (simp add: validate_json_structure_def Let_def)
    next
      case 3
      with PDict Some e show ?thesis by (simp add: validate_json_structure_def Let_def)
    qed
  qed (use Some e in \<open>simp_all add: validate_json_structure_def\<close>)
qed

lemma validate_fields_present:
  assumes "validate_json_structure data = Inr out" and "f \<in> fst ` set required_fields"
  shows "map_of out f \<noteq> None"
proof -
  from validate_Inr [OF assms(1)] obtain r' where
    m: "map_of out = (map_of (ensure_required data))(''risks'' \<mapsto> r')" by blast
  from assms(2) have "map_of required_fields f \<noteq> None"
    by (simp add: map_of_eq_None_iff)
  then show ?thesis
    by (simp add: m map_of_ensure_required split: option.splits)
qed

lemma validate_fixpoint:
  assumes "validate_json_structure data = Inr out"
  shows "validate_json_structure out = Inr out"
proof -
  from validate_Inr [OF assms] obtain r' where
    len: "py_len r' = Inr 3" and
    m: "map_of out = (map_of (ensure_required data))(''risks'' \<mapsto> r')" by blast
  have "\<forall>f \<in> fst ` set required_fields. map_of out f \<noteq> None"
    using validate_fields_present [OF assms] by blast
  then have "ensure_required out = out"
    unfolding ensure_required_def by (rule foldl_ensure_present)
  moreover have "map_of out ''risks'' = Some r'" by (simp add: m)
  ultimately show ?thesis using len by (simp add: validate_json_structure_def)
qed


subsection \<open>The risks count\<close>

lemma risks_list_normalised:
  assumes "map_of data ''risks'' = Some (PList rs) \<or> map_of data ''risks'' = None \<and> rs = []"
  shows "\<exists>out rs'. validate_json_structure data = Inr out
           \<and> map_of out ''risks'' = Some (PList rs') \<and> length rs' = 3
           \<and> (3 \<le> length rs \<longrightarrow> rs' = take 3 rs)
           \<and> (length rs < 3 \<longrightarrow> rs' = rs @ replicate (3 - length rs) generic_risk)"
proof -
  from assms have e: "map_of (ensure_required data) ''risks'' = Some (PList rs)"
    by (auto simp: ensured_risks)
  let ?rs' = "take 3 rs @ replicate (3 - length rs) generic_risk"
  have "\<exists>out. validate_json_structure data = Inr out \<and> map_of out ''risks'' = Some (PList ?rs')"
    using e by (auto simp: validate_list [OF e] update_conv')
  moreover have "length ?rs' = 3" by auto
  moreover have "3 \<le> length rs \<longrightarrow> ?rs' = take 3 rs" by simp
  moreover have "length rs < 3 \<longrightarrow> ?rs' = rs @ replicate (3 - length rs) generic_risk" by simp
  ultimately show ?thesis by blast
qed

text \<open>
  Claim C2. On every input map, whenever the function returns, the \<^verbatim>\<open>risks\<close> of the
  result has length exactly three. When the input's \<^verbatim>\<open>risks\<close> is a list \<open>rs\<close> (or the key
  is absent, which the defaulting loop turns into the empty list), the function does
  return, and the \<^verbatim>\<open>risks\<close> of the result is the list of the first three entries of \<open>rs\<close>,
  unchanged and in order, when \<open>rs\<close> has three or more; otherwise all of \<open>rs\<close> in order,
  followed by copies of the placeholder risk (title "Generic Risk", description "Standard
  project risk", impact and probability "Medium", mitigation "Monitor and adjust as
  needed") up to length three.
\<close>

theorem risks_normalised_to_three:
  "(\<forall>out. validate_json_structure data = Inr out
       \<longrightarrow> (\<exists>r. map_of out ''risks'' = Some r \<and> py_len r = Inr 3))
   \<and> (map_of data ''risks'' = Some (PList rs) \<or> map_of data ''risks'' = None \<and> rs = []
       \<longrightarrow> (\<exists>out rs'. validate_json_structure data = Inr out
             \<and> map_of out ''risks'' = Some (PList rs') \<and> length rs' = 3
             \<and> (3 \<le> length rs \<longrightarrow> rs' = take 3 rs)
             \<and> (length rs < 3 \<longrightarrow> rs' = rs @ replicate (3 - length rs)
                   (PDict [(''title'', PStr ''Generic Risk''),
                           (''description'', PStr ''Standard project risk''),
                           (''impact'', PStr ''Medium''),
                           (''probability'', PStr ''Medium''),
                           (''mitigation'', PStr ''Monitor and adjust as needed'')]))))"
proof (intro conjI allI impI)
  fix out
  assume "validate_json_structure data = Inr out"
  from validate_Inr [OF this] show "\<exists>r. map_of out ''risks'' = Some r \<and> py_len r = Inr 3"
    by auto
next
  assume "map_of data ''risks'' = Some (PList rs) \<or> map_of data ''risks'' = None \<and> rs = []"
  from risks_list_normalised [OF this]
  show "\<exists>out rs'. validate_json_structure data = Inr out
             \<and> map_of out ''risks'' = Some (PList rs') \<and> length rs' = 3
             \<and> (3 \<le> length rs \<longrightarrow> rs' = take 3 rs)
             \<and> (length rs < 3 \<longrightarrow> rs' = rs @ replicate (3 - length rs)
                   (PDict [(''title'', PStr ''Generic Risk''),
                           (''description'', PStr ''Standard project risk''),
                           (''impact'', PStr ''Medium''),
                           (''probability'', PStr ''Medium''),
                           (''mitigation'', PStr ''Monitor and adjust as needed'')]))"
    unfolding generic_risk_def .
qed

theorem risks_normalised_to_three_witness:
  "(\<exists>out. validate_json_structure
            [(''risks'', PList [PInt 1, PInt 2, PInt 3, PInt 4, PInt 5])] = Inr out
          \<and> map_of out ''risks'' = Some (PList [PInt 1, PInt 2, PInt 3]))
   \<and> (\<exists>out. validate_json_structure [(''risks'', PList [PInt 1])] = Inr out
          \<and> map_of out ''risks'' = Some (PList [PInt 1, generic_risk, generic_risk]))"
proof
  have "map_of [(''risks'', PList [PInt 1, PInt 2, PInt 3, PInt 4, PInt 5])] ''risks''
          = Some (PList [PInt 1, PInt 2, PInt 3, PInt 4, PInt 5])
        \<or> map_of [(''risks'', PList [PInt 1, PInt 2, PInt 3, PInt 4, PInt 5])] ''risks'' = None
          \<and> [PInt 1, PInt 2, PInt 3, PInt 4, PInt 5] = []"
    by simp
  from risks_normalised_to_three [THEN conjunct2, THEN mp, OF this]
  show "\<exists>out. validate_json_structure
            [(''risks'', PList [PInt 1, PInt 2, PInt 3, PInt 4, PInt 5])] = Inr out
          \<and> map_of out ''risks'' = Some (PList [PInt 1, PInt 2, PInt 3])"
    by auto
next
  have "map_of [(''risks'', PList [PInt 1])] ''risks'' = Some (PList [PInt 1])
        \<or> map_of [(''risks'', PList [PInt 1])] ''risks'' = None \<and> [PInt 1] = []"
    by simp
  from risks_normalised_to_three [THEN conjunct2, THEN mp, OF this]
  show "\<exists>out. validate_json_structure [(''risks'', PList [PInt 1])] = Inr out
          \<and> map_of out ''risks'' = Some (PList [PInt 1, generic_risk, generic_risk])"
    by (auto simp: generic_risk_def numeral_2_eq_2)
qed

subsection \<open>Defaults for missing fields\<close>

text \<open>
  Claim C3, as amended. Whenever the function returns, all seven fields are present in the
  result. A missing field other than \<^verbatim>\<open>risks\<close> holds its named default: "Untitled
  Project", "No summary provided", 4 and the empty sequence for \<^verbatim>\<open>milestones\<close>,
  \<^verbatim>\<open>monitoring_checkpoints\<close> and \<^verbatim>\<open>parallel_opportunities\<close>. A missing \<^verbatim>\<open>risks\<close> does not
  hold the empty sequence: the count rule runs after the defaulting loop, so it holds three
  placeholder risks.
\<close>

theorem missing_fields_defaulted:
  assumes "validate_json_structure data = Inr out"
  shows "(\<forall>f \<in> {''project_name'', ''project_summary'', ''total_weeks'', ''milestones'',
               ''risks'', ''monitoring_checkpoints'', ''parallel_opportunities''}.
            map_of out f \<noteq> None)
       \<and> (map_of data ''project_name'' = None
            \<longrightarrow> map_of out ''project_name'' = Some (PStr ''Untitled Project''))
       \<and> (map_of data ''project_summary'' = None
            \<longrightarrow> map_of out ''project_summary'' = Some (PStr ''No summary provided''))
       \<and> (map_of data ''total_weeks'' = None
            \<longrightarrow> map_of out ''total_weeks'' = Some (PInt 4))
       \<and> (map_of data ''milestones'' = None
            \<longrightarrow> map_of out ''milestones'' = Some (PList []))
       \<and> (map_of data ''monitoring_checkpoints'' = None
            \<longrightarrow> map_of out ''monitoring_checkpoints'' = Some (PList []))
       \<and> (map_of data ''parallel_opportunities'' = None
            \<longrightarrow> map_of out ''parallel_opportunities'' = Some (PList []))
       \<and> (map_of data ''risks'' = None
            \<longrightarrow> map_of out ''risks'' = Some (PList [generic_risk, generic_risk, generic_risk]))"
proof -
  from validate_Inr [OF assms] obtain r' where
    m: "map_of out = (map_of (ensure_required data))(''risks'' \<mapsto> r')" by blast
  have present: "\<forall>f \<in> {''project_name'', ''project_summary'', ''total_weeks'', ''milestones'',
               ''risks'', ''monitoring_checkpoints'', ''parallel_opportunities''}.
            map_of out f \<noteq> None"
    using validate_fields_present [OF assms] unfolding required_keys by blast
  have other: "map_of data f = None \<Longrightarrow> f \<noteq> ''risks'' \<Longrightarrow> map_of out f = map_of required_fields f" for f
    by (simp add: m map_of_ensure_required)
  have risks: "map_of out ''risks'' = Some (PList [generic_risk, generic_risk, generic_risk])"
    if "map_of data ''risks'' = None"
  proof -
    from that have e: "map_of (ensure_required data) ''risks'' = Some (PList [])"
      by (simp add: ensured_risks)
    from validate_list [OF e] assms show ?thesis
      by (auto simp: update_conv' numeral_3_eq_3)
  qed
  have "map_of data ''project_name'' = None
          \<longrightarrow> map_of out ''project_name'' = Some (PStr ''Untitled Project'')"
    using other [of "''project_name''"] by (simp add: required_fields_def)
  moreover have "map_of data ''project_summary'' = None
          \<longrightarrow> map_of out ''project_summary'' = Some (PStr ''No summary provided'')"
    using other [of "''project_summary''"] by (simp add: required_fields_def)
  moreover have "map_of data ''total_weeks'' = None
          \<longrightarrow> map_of out ''total_weeks'' = Some (PInt 4)"
    using other [of "''total_weeks''"] by (simp add: required_fields_def)
  moreover have "map_of data ''milestones'' = None
          \<longrightarrow> map_of out ''milestones'' = Some (PList [])"
    using other [of "''milestones''"] by (simp add: required_fields_def)
  moreover have "map_of data ''monitoring_checkpoints'' = None
          \<longrightarrow> map_of out ''monitoring_checkpoints'' = Some (PList [])"
    using other [of "''monitoring_checkpoints''"] by (simp add: required_fields_def)
  moreover have "map_of data ''parallel_opportunities'' = None
          \<longrightarrow> map_of out ''parallel_opportunities'' = Some (PList [])"
    using other [of "''parallel_opportunities''"] by (simp add: required_fields_def)
  ultimately show ?thesis using present risks by blast
qed

lemma validate_empty:
  "validate_json_structure [] = Inr
     [(''project_name'', PStr ''Untitled Project''),
      (''project_summary'', PStr ''No summary provided''),
      (''total_weeks'', PInt 4),
      (''milestones'', PList []),
      (''risks'', PList [generic_risk, generic_risk, generic_risk]),
      (''monitoring_checkpoints'', PList []),
      (''parallel_opportunities'', PList [])]"
proof -
  have e: "ensure_required [] = required_fields"
    by (simp add: ensure_required_def required_fields_def ensure_field_def)
  have "map_of (ensure_required []) ''risks'' = Some (PList [])"
    by (simp add: ensured_risks)
  from validate_list [OF this] show ?thesis
    by (simp add: e required_fields_def numeral_3_eq_3)
qed

theorem missing_fields_defaulted_witness:
  "validate_json_structure [] = Inr
     [(''project_name'', PStr ''Untitled Project''),
      (''project_summary'', PStr ''No summary provided''),
      (''total_weeks'', PInt 4),
      (''milestones'', PList []),
      (''risks'', PList [generic_risk, generic_risk, generic_risk]),
      (''monitoring_checkpoints'', PList []),
      (''parallel_opportunities'', PList [])]
   \<and> map_of [(''project_name'', PStr ''Untitled Project''),
      (''project_summary'', PStr ''No summary provided''),
      (''total_weeks'', PInt 4),
      (''milestones'', PList []),
      (''risks'', PList [generic_risk, generic_risk, generic_risk]),
      (''monitoring_checkpoints'', PList []),
      (''parallel_opportunities'', PList [])] ''total_weeks'' = Some (PInt 4)"
  using missing_fields_defaulted [OF validate_empty] validate_empty by simp

text \<open>
  The claim as stated fails on the empty map: the result's \<^verbatim>\<open>risks\<close> is not the empty
  sequence.
\<close>

theorem missing_risks_not_empty_counterexample:
  "validate_json_structure [] = Inr
     [(''project_name'', PStr ''Untitled Project''),
      (''project_summary'', PStr ''No summary provided''),
      (''total_weeks'', PInt 4),
      (''milestones'', PList []),
      (''risks'', PList [generic_risk, generic_risk, generic_risk]),
      (''monitoring_checkpoints'', PList []),
      (''parallel_opportunities'', PList [])]
   \<and> map_of
     [(''project_name'', PStr ''Untitled Project''),
      (''project_summary'', PStr ''No summary provided''),
      (''total_weeks'', PInt 4),
      (''milestones'', PList []),
      (''risks'', PList [generic_risk, generic_risk, generic_risk]),
      (''monitoring_checkpoints'', PList []),
      (''parallel_opportunities'', PList [])] ''risks'' \<noteq> Some (PList [])"
  using validate_empty by simp

subsection \<open>Totality\<close>

text \<open>
  Claim C5 fails as stated: the function is not total on maps whose fields have arbitrary
  types. With \<^verbatim>\<open>risks\<close> bound to a number, \<^verbatim>\<open>len(data['risks'])\<close> raises \<^verbatim>\<open>TypeError\<close>.
\<close>

theorem validate_raises_counterexample:
  "validate_json_structure [(''risks'', PInt 5)] =
     Inl (Raised ''TypeError'' (''object of type '' @ quoted ''int'' @ '' has no len()''))"
  by (simp add: validate_json_structure_def ensured_risks)

text \<open>
  Claim C5, as amended. The function returns exactly when \<^verbatim>\<open>risks\<close> is absent, a list, a
  string of three characters or more, or a dictionary of exactly three keys; on every
  other value of \<^verbatim>\<open>risks\<close> (null, a boolean, a number, a shorter string, another
  dictionary) it raises. Whenever it returns, the result has all seven required fields, and
  its \<^verbatim>\<open>risks\<close> has length three: the shape that Plan construction is attempted on.
\<close>

theorem validate_total_on_sequences:
  "((\<exists>out. validate_json_structure data = Inr out) = risks_accepted (map_of data ''risks''))
   \<and> (\<forall>out. validate_json_structure data = Inr out \<longrightarrow>
         (\<forall>f \<in> {''project_name'', ''project_summary'', ''total_weeks'', ''milestones'',
               ''risks'', ''monitoring_checkpoints'', ''parallel_opportunities''}.
            map_of out f \<noteq> None)
         \<and> (\<exists>r. map_of out ''risks'' = Some r \<and> py_len r = Inr 3))"
proof (intro conjI allI impI ballI)
  show "(\<exists>out. validate_json_structure data = Inr out) = risks_accepted (map_of data ''risks'')"
    by (rule validate_returns)
next
  fix out f
  assume "validate_json_structure data = Inr out"
    and "f \<in> {''project_name'', ''project_summary'', ''total_weeks'', ''milestones'',
               ''risks'', ''monitoring_checkpoints'', ''parallel_opportunities''}"
  then show "map_of out f \<noteq> None"
    by (intro validate_fields_present [of data out f]) (simp_all only: required_keys)
next
  fix out
  assume "validate_json_structure data = Inr out"
  from validate_Inr [OF this] show "\<exists>r. map_of out ''risks'' = Some r \<and> py_len r = Inr 3"
    by auto
qed

theorem validate_total_on_sequences_witness:
  "risks_accepted (map_of [(''risks'', PStr ''abcd'')] ''risks'')
   \<and> validate_json_structure [(''risks'', PStr ''abcd'')] = Inr
     [(''risks'', PStr ''abc''),
      (''project_name'', PStr ''Untitled Project''),
      (''project_summary'', PStr ''No summary provided''),
      (''total_weeks'', PInt 4),
      (''milestones'', PList []),
      (''monitoring_checkpoints'', PList []),
      (''parallel_opportunities'', PList [])]
   \<and> (\<exists>r. map_of [(''risks'', PStr ''abc''),
      (''project_name'', PStr ''Untitled Project''),
      (''project_summary'', PStr ''No summary provided''),
      (''total_weeks'', PInt 4),
      (''milestones'', PList []),
      (''monitoring_checkpoints'', PList []),
      (''parallel_opportunities'', PList [])] ''risks'' = Some r \<and> py_len r = Inr 3)"
proof -
  let ?d = "[(''risks'', PStr ''abcd'')]"
  let ?out = "[(''risks'', PStr ''abc''),
      (''project_name'', PStr ''Untitled Project''),
      (''project_summary'', PStr ''No summary provided''),
      (''total_weeks'', PInt 4),
      (''milestones'', PList []),
      (''monitoring_checkpoints'', PList []),
      (''parallel_opportunities'', PList [])]"
  have v: "validate_json_structure ?d = Inr ?out"
    by (simp add: validate_json_structure_def ensure_required_def required_fields_def
        ensure_field_def)
  then have "\<exists>out. validate_json_structure ?d = Inr out" ..
  with validate_total_on_sequences [of ?d, THEN conjunct1]
  have a: "risks_accepted (map_of ?d ''risks'')" by (rule iffD1)
  from validate_total_on_sequences [of ?d, THEN conjunct2, THEN spec, THEN mp, OF v]
  have "\<exists>r. map_of ?out ''risks'' = Some r \<and> py_len r = Inr 3" by (rule conjunct2)
  with a v show ?thesis by (intro conjI)
qed

subsection \<open>Idempotence\<close>

text \<open>
  Claim C7. Applying the function to its own result gives that result again; when the
  first application raises, so does the composition, with the same exception. So the
  function applied twice always equals the function applied once.
\<close>

theorem validate_idempotent:
  "(case validate_json_structure data of
      Inl e \<Rightarrow> Inl e
    | Inr out \<Rightarrow> validate_json_structure out) = validate_json_structure data"
  by (cases "validate_json_structure data") (simp_all add: validate_fixpoint)

theorem validate_idempotent_witness:
  "validate_json_structure [] = Inr
     [(''project_name'', PStr ''Untitled Project''),
      (''project_summary'', PStr ''No summary provided''),
      (''total_weeks'', PInt 4),
      (''milestones'', PList []),
      (''risks'', PList [generic_risk, generic_risk, generic_risk]),
      (''monitoring_checkpoints'', PList []),
      (''parallel_opportunities'', PList [])]
   \<and> validate_json_structure
     [(''project_name'', PStr ''Untitled Project''),
      (''project_summary'', PStr ''No summary provided''),
      (''total_weeks'', PInt 4),
      (''milestones'', PList []),
      (''risks'', PList [generic_risk, generic_risk, generic_risk]),
      (''monitoring_checkpoints'', PList []),
      (''parallel_opportunities'', PList [])] = Inr
     [(''project_name'', PStr ''Untitled Project''),
      (''project_summary'', PStr ''No summary provided''),
      (''total_weeks'', PInt 4),
      (''milestones'', PList []),
      (''risks'', PList [generic_risk, generic_risk, generic_risk]),
      (''monitoring_checkpoints'', PList []),
      (''parallel_opportunities'', PList [])]"
  using validate_idempotent [of "[]"] validate_empty by simp

subsection \<open>Frame\<close>

text \<open>
  Claim C10. Whenever the function returns, a key outside the seven required fields is in
  the result exactly as in the input (same value, or absent in both), and every key that
  was present in the input, other than \<^verbatim>\<open>risks\<close>, keeps its value, whatever its type.
\<close>

theorem validate_frame:
  assumes "validate_json_structure data = Inr out"
  shows "(\<forall>k. k \<notin> {''project_name'', ''project_summary'', ''total_weeks'', ''milestones'',
               ''risks'', ''monitoring_checkpoints'', ''parallel_opportunities''}
            \<longrightarrow> map_of out k = map_of data k)
       \<and> (\<forall>k v. k \<noteq> ''risks'' \<and> map_of data k = Some v \<longrightarrow> map_of out k = Some v)"
proof (intro conjI allI impI)
  from validate_Inr [OF assms] obtain r' where
    m: "map_of out = (map_of (ensure_required data))(''risks'' \<mapsto> r')" by blast
  {
    fix k
    assume k: "k \<notin> {''project_name'', ''project_summary'', ''total_weeks'', ''milestones'',
               ''risks'', ''monitoring_checkpoints'', ''parallel_opportunities''}"
    then have "k \<notin> fst ` set required_fields" unfolding required_keys .
    then have "map_of required_fields k = None" by (simp add: map_of_eq_None_iff)
    moreover from k have "k \<noteq> ''risks''" by simp
    ultimately show "map_of out k = map_of data k"
      by (simp add: m map_of_ensure_required split: option.splits)
  }
  {
    fix k v
    assume "k \<noteq> ''risks'' \<and> map_of data k = Some v"
    then show "map_of out k = Some v"
      by (simp add: m map_of_ensure_required)
  }
qed

theorem validate_frame_witness:
  "validate_json_structure
     [(''total_weeks'', PStr ''four''), (''owner'', PInt 7), (''risks'', PStr ''abc'')] = Inr
     [(''total_weeks'', PStr ''four''), (''owner'', PInt 7), (''risks'', PStr ''abc''),
      (''project_name'', PStr ''Untitled Project''),
      (''project_summary'', PStr ''No summary provided''),
      (''milestones'', PList []),
      (''monitoring_checkpoints'', PList []),
      (''parallel_opportunities'', PList [])]
   \<and> map_of [(''total_weeks'', PStr ''four''), (''owner'', PInt 7), (''risks'', PStr ''abc''),
      (''project_name'', PStr ''Untitled Project''),
      (''project_summary'', PStr ''No summary provided''),
      (''milestones'', PList []),
      (''monitoring_checkpoints'', PList []),
      (''parallel_opportunities'', PList [])] ''owner'' = Some (PInt 7)"
proof -
  have v: "validate_json_structure
     [(''total_weeks'', PStr ''four''), (''owner'', PInt 7), (''risks'', PStr ''abc'')] = Inr
     [(''total_weeks'', PStr ''four''), (''owner'', PInt 7), (''risks'', PStr ''abc''),
      (''project_name'', PStr ''Untitled Project''),
      (''project_summary'', PStr ''No summary provided''),
      (''milestones'', PList []),
      (''monitoring_checkpoints'', PList []),
      (''parallel_opportunities'', PList [])]"
    by (simp add: validate_json_structure_def ensure_required_def required_fields_def
        ensure_field_def)
  have "''owner'' \<noteq> ''risks'' \<and> map_of
     [(''total_weeks'', PStr ''four''), (''owner'', PInt 7), (''risks'', PStr ''abc'')]
     ''owner'' = Some (PInt 7)" by simp
  from validate_frame [OF v, THEN conjunct2, rule_format, OF this] v
  show ?thesis by (intro conjI)
qed

section \<open>Properties of clean_json_response\<close>

declare sub_json_fence.simps(2) [simp del]

declare remove_openers.simps [simp del]



lemma match_dot_star_brace_eq:
  "match_dot_star_brace cs =
     (let u = rev (dropWhile (\<lambda>c. c \<noteq> cp (CHR ''}'')) (rev cs))
      in if u = [] then None else Some u)"
  by (induction cs) (auto simp: dropWhile_append Let_def)

lemma no_closing_brace:
  "\<forall>x \<in> set cs. x \<noteq> cp (CHR ''}'') \<Longrightarrow> first_to_last_brace cs = None"
proof -
  assume a: "\<forall>x \<in> set cs. x \<noteq> cp (CHR ''}'')"
  have "\<forall>x \<in> set (dropWhile (\<lambda>c. c \<noteq> cp (CHR ''{'')) cs). x \<noteq> cp (CHR ''}'')"
    using a by (auto dest: set_dropWhileD)
  then show ?thesis by (simp add: first_to_last_brace_def)
qed

lemma search_braces_eq: "search_braces s = first_to_last_brace s"
proof (induction s)
  case Nil
  show ?case by (simp add: first_to_last_brace_def)
next
  case (Cons c cs)
  show ?case
  proof (cases "c = cp (CHR ''{'')")
    case True
    show ?thesis
    proof (cases "\<forall>x \<in> set cs. x \<noteq> cp (CHR ''}'')")
      case all: True
      then have "match_dot_star_brace cs = None" by (simp add: match_dot_star_brace_eq)
      moreover have "first_to_last_brace (c # cs) = None"
        using all True by (intro no_closing_brace) auto
      moreover have "first_to_last_brace cs = None" using all by (rule no_closing_brace)
      ultimately show ?thesis using True Cons.IH by simp
    next
      case False
      then show ?thesis using True
        by (auto simp: match_dot_star_brace_eq first_to_last_brace_def dropWhile_append Let_def)
    qed
  next
    case False
    then show ?thesis using Cons.IH by (simp add: first_to_last_brace_def)
  qed
qed


lemma backtick_not_space: "\<not> isspace (cp (CHR 0x60))"
  by (simp add: isspace_def)

lemma closing_fence_eq: "closing_fence = [cp (CHR 0x60), cp (CHR 0x60), cp (CHR 0x60)]"
  by (simp add: closing_fence_def ustr_def)

lemma sub_closing_fence_decomp:
  assumes "list_all isspace w"
  shows "sub_closing_fence (p @ closing_fence @ w) = p"
proof (induction p)
  case Nil
  show ?case using assms by (simp add: closing_fence_eq)
next
  case (Cons c p)
  define x where "x = c # p @ [cp (CHR 0x60), cp (CHR 0x60)]"
  define y where "y = cp (CHR 0x60) # w"
  have e: "c # p @ closing_fence @ w = x @ y"
    by (simp add: closing_fence_eq x_def y_def)
  have "3 \<le> length x" by (simp add: x_def)
  then have "drop 3 (x @ y) = drop 3 x @ y" by simp
  moreover have "\<not> list_all isspace (drop 3 x @ y)"
    using backtick_not_space by (simp add: y_def)
  moreover have "length closing_fence = 3" by (simp add: closing_fence_eq)
  ultimately have "\<not> list_all isspace (drop (length closing_fence) (c # p @ closing_fence @ w))"
    by (metis e)
  then show ?case using Cons.IH by simp
qed

lemma sub_closing_fence_none:
  "\<forall>p w. s = p @ closing_fence @ w \<longrightarrow> \<not> list_all isspace w \<Longrightarrow> sub_closing_fence s = s"
proof (induction s)
  case Nil
  show ?case by simp
next
  case (Cons c cs)
  have "\<not> (prefix closing_fence (c # cs) \<and> list_all isspace (drop (length closing_fence) (c # cs)))"
  proof
    assume a: "prefix closing_fence (c # cs) \<and> list_all isspace (drop (length closing_fence) (c # cs))"
    then have "c # cs = [] @ closing_fence @ drop (length closing_fence) (c # cs)"
      by (metis append_Nil prefix_def append_eq_conv_conj)
    with Cons.prems a show False by blast
  qed
  moreover have "\<forall>p w. cs = p @ closing_fence @ w \<longrightarrow> \<not> list_all isspace w"
  proof (intro allI impI)
    fix p w assume "cs = p @ closing_fence @ w"
    then have "c # cs = (c # p) @ closing_fence @ w" by simp
    with Cons.prems show "\<not> list_all isspace w" by blast
  qed
  ultimately show ?case using Cons.IH by simp
qed

lemma rstrip_decomp:
  assumes "s = p @ closing_fence @ w" and "list_all isspace w"
  shows "rev (dropWhile isspace (rev s)) = p @ closing_fence"
proof -
  have "rev s = rev w @ (rev closing_fence @ rev p)" using assms(1) by simp
  moreover have "\<forall>x \<in> set (rev w). isspace x" using assms(2) by (simp add: list_all_iff)
  ultimately have "dropWhile isspace (rev s) = dropWhile isspace (rev closing_fence @ rev p)"
    by (simp add: dropWhile_append)
  also have "\<dots> = rev closing_fence @ rev p"
    using backtick_not_space by (simp add: closing_fence_eq)
  finally show ?thesis by simp
qed

lemma sub_closing_fence_eq: "sub_closing_fence s = strip_trailing_closer s"
proof -
  let ?t = "rev (dropWhile isspace (rev s))"
  let ?w = "rev (takeWhile isspace (rev s))"
  have s: "s = ?t @ ?w"
    by (metis rev_append rev_rev_ident takeWhile_dropWhile_id)
  have w: "list_all isspace ?w"
    by (auto simp: list_all_iff dest: set_takeWhileD)
  show ?thesis
  proof (cases "suffix closing_fence ?t")
    case True
    then obtain p where p: "?t = p @ closing_fence" by (auto simp: suffix_def)
    then have "s = p @ closing_fence @ ?w" using s by simp
    then have "sub_closing_fence s = p"
      using sub_closing_fence_decomp [OF w, of p] by simp
    moreover have "take (length ?t - length closing_fence) ?t = p" by (simp add: p)
    ultimately show ?thesis using True by (simp add: strip_trailing_closer_def Let_def)
  next
    case False
    have "\<forall>p w. s = p @ closing_fence @ w \<longrightarrow> \<not> list_all isspace w"
    proof (intro allI impI notI)
      fix p w assume "s = p @ closing_fence @ w" "list_all isspace w"
      then have "?t = p @ closing_fence" by (rule rstrip_decomp)
      with False show False by (simp add: suffix_def)
    qed
    then have "sub_closing_fence s = s" by (rule sub_closing_fence_none)
    then show ?thesis using False by (simp add: strip_trailing_closer_def Let_def)
  qed
qed

lemma prefix_json_fence: "prefix json_fence s \<longleftrightarrow> opener_at s 0"
  unfolding opener_at_def
  by (metis append_eq_conv_conj drop0 prefix_def take_is_prefix)

lemma opener_at_Cons: "opener_at (c # s) (Suc j) = opener_at s j"
  by (simp add: opener_at_def)

lemma sub_json_fence_skip:
  "\<forall>j < length a. \<not> opener_at (a @ t) j \<Longrightarrow> sub_json_fence (a @ t) = a @ sub_json_fence t"
proof (induction a)
  case Nil
  show ?case by simp
next
  case (Cons c a)
  from Cons.prems have "\<not> opener_at (c # a @ t) 0" by auto
  then have "\<not> prefix json_fence (c # a @ t)" by (simp add: prefix_json_fence)
  then have "sub_json_fence ((c # a) @ t) = c # sub_json_fence (a @ t)"
    by (simp add: sub_json_fence.simps)
  moreover have "\<forall>j < length a. \<not> opener_at (a @ t) j"
  proof (intro allI impI)
    fix j assume "j < length a"
    then have "\<not> opener_at ((c # a) @ t) (Suc j)" using Cons.prems by auto
    then show "\<not> opener_at (a @ t) j" by (simp add: opener_at_Cons)
  qed
  ultimately show ?case using Cons.IH by simp
qed

lemma first_opener_Some:
  assumes "first_opener s = Some i"
  shows "i < length s" and "opener_at s i" and "\<forall>j < i. \<not> opener_at s j"
proof -
  from assms obtain k where k: "k < length [0 ..< length s]"
    "opener_at s ([0 ..< length s] ! k)" "i = [0 ..< length s] ! k"
    "\<forall>j < k. \<not> opener_at s ([0 ..< length s] ! j)"
    unfolding first_opener_def find_Some_iff by blast
  from k(1) have kl: "k < length s" by simp
  then have ik: "i = k" using k(3) by simp
  show "i < length s" using kl ik by simp
  show "opener_at s i" using k(2) kl ik by simp
  show "\<forall>j < i. \<not> opener_at s j"
  proof (intro allI impI)
    fix j assume "j < i"
    then have "j < k" "j < length s" using ik kl by simp_all
    with k(4) show "\<not> opener_at s j" by force
  qed
qed

lemma first_opener_None:
  assumes "first_opener s = None"
  shows "\<forall>j < length s. \<not> opener_at s j"
  using assms unfolding first_opener_def find_None_iff by simp

lemma sub_json_fence_at_opener:
  assumes "opener_at s i"
  shows "sub_json_fence (drop i s)
           = sub_json_fence (dropWhile isspace (drop (i + length json_fence) s))"
proof -
  from assms have p: "prefix json_fence (drop i s)"
    by (simp add: prefix_json_fence opener_at_def)
  have "json_fence \<noteq> []" by (simp add: json_fence_def ustr_def)
  with p obtain c cs where d: "drop i s = c # cs" by (cases "drop i s") auto
  have "sub_json_fence (c # cs)
          = sub_json_fence (dropWhile isspace (drop (length json_fence) (c # cs)))"
    using p d by (simp add: sub_json_fence.simps)
  then show ?thesis by (simp add: d [symmetric] add.commute)
qed

lemma sub_json_fence_eq: "sub_json_fence s = remove_openers s"
proof (induction s rule: remove_openers.induct)
  case (1 s)
  show ?case
  proof (cases "first_opener s")
    case None
    from first_opener_None [OF None] have "sub_json_fence (s @ []) = s @ sub_json_fence []"
      by (intro sub_json_fence_skip) simp
    then show ?thesis using None by (subst remove_openers.simps) simp
  next
    case (Some i)
    note fo = first_opener_Some [OF Some]
    have "\<forall>j < length (take i s). \<not> opener_at (take i s @ drop i s) j"
      using fo(1,3) by simp
    then have "sub_json_fence (take i s @ drop i s) = take i s @ sub_json_fence (drop i s)"
      by (rule sub_json_fence_skip)
    then have "sub_json_fence s = take i s @ sub_json_fence (drop i s)" by simp
    also have "sub_json_fence (drop i s)
                 = sub_json_fence (dropWhile isspace (drop (i + length json_fence) s))"
      using fo(2) by (rule sub_json_fence_at_opener)
    also have "\<dots> = remove_openers (dropWhile isspace (drop (i + length json_fence) s))"
      using Some by (rule "1.IH")
    finally show ?thesis using Some by (subst remove_openers.simps) simp
  qed
qed

lemma clean_json_response_eq_amended:
  "clean_json_response raw = clean_json_response_amended raw"
  by (simp add: clean_json_response_def clean_json_response_amended_def
      sub_json_fence_eq sub_closing_fence_eq search_braces_eq Let_def)

lemma sub_json_fence_none: "\<not> has_json_fence t \<Longrightarrow> sub_json_fence t = t"
  by (induction t) (auto simp: sub_json_fence.simps)

lemma has_json_fence_j: "has_json_fence t \<Longrightarrow> cp (CHR ''j'') \<in> set t"
proof (induction t)
  case Nil
  then show ?case by simp
next
  case (Cons c cs)
  from Cons.prems consider "prefix json_fence (c # cs)" | "has_json_fence cs" by auto
  then show ?case
  proof cases
    case 1
    then have "set json_fence \<subseteq> set (c # cs)" by (rule set_mono_prefix)
    then show ?thesis by (auto simp: json_fence_def ustr_def)
  next
    case 2
    with Cons.IH show ?thesis by simp
  qed
qed

lemma has_json_fence_append:
  assumes "x \<noteq> []" and "last x = cp (CHR ''}'')" and "has_json_fence (x @ rest)"
  shows "has_json_fence x \<or> has_json_fence rest"
  using assms
proof (induction x)
  case Nil
  then show ?case by simp
next
  case (Cons c x')
  from Cons.prems(3) consider "prefix json_fence (c # x' @ rest)" | "has_json_fence (x' @ rest)"
    by auto
  then show ?case
  proof cases
    case 1
    moreover have "prefix (c # x') (c # x' @ rest)" by simp
    ultimately consider "prefix json_fence (c # x')" | "prefix (c # x') json_fence"
      using prefix_same_cases by blast
    then show ?thesis
    proof cases
      case 1
      then show ?thesis by simp
    next
      case 2
      then have "set (c # x') \<subseteq> set json_fence" by (rule set_mono_prefix)
      moreover have "cp (CHR ''}'') \<in> set (c # x')"
        using Cons.prems(2) last_in_set [of "c # x'"] by simp
      ultimately have "cp (CHR ''}'') \<in> set json_fence" by blast
      then show ?thesis by (simp add: json_fence_def ustr_def)
    qed
  next
    case 2
    show ?thesis
    proof (cases "x' = []")
      case True
      with 2 show ?thesis by simp
    next
      case False
      with Cons.prems(2) have "last x' = cp (CHR ''}'')" by simp
      from Cons.IH [OF False this 2] show ?thesis by auto
    qed
  qed
qed

lemma fenced_body:
  assumes w1: "list_all isspace w1" and w2: "list_all isspace w2" and w3: "list_all isspace w3"
    and body: "\<not> has_json_fence (cp (CHR ''{'') # mid @ [cp (CHR ''}'')])"
  shows "clean_json_response
           (json_fence @ w1 @ cp (CHR ''{'') # mid @ [cp (CHR ''}'')] @ w2 @ closing_fence @ w3)
         = cp (CHR ''{'') # mid @ [cp (CHR ''}'')]"
proof -
  let ?body = "cp (CHR ''{'') # mid @ [cp (CHR ''}'')]"
  let ?rest = "w2 @ closing_fence @ w3"
  have nsp: "\<not> isspace (cp (CHR ''{''))" "\<not> isspace (cp (CHR ''}''))"
    "\<not> isspace (cp (CHR ''j''))"
    by (simp_all add: isspace_def)
  have "opener_at (json_fence @ w1 @ ?body @ ?rest) 0" by (simp add: opener_at_def)
  from sub_json_fence_at_opener [OF this]
  have "sub_json_fence (json_fence @ w1 @ ?body @ ?rest)
          = sub_json_fence (dropWhile isspace (w1 @ ?body @ ?rest))"
    by simp
  also have "dropWhile isspace (w1 @ ?body @ ?rest) = ?body @ ?rest"
    using w1 nsp(1) by (simp add: dropWhile_append list_all_iff)
  also have "sub_json_fence (?body @ ?rest) = ?body @ ?rest"
  proof (rule sub_json_fence_none, rule notI)
    assume "has_json_fence (?body @ ?rest)"
    then have "has_json_fence ?body \<or> has_json_fence ?rest"
      by (intro has_json_fence_append) simp_all
    with body have "has_json_fence ?rest" by blast
    then have "cp (CHR ''j'') \<in> set ?rest" by (rule has_json_fence_j)
    then show False using w2 w3 nsp(3) by (auto simp: list_all_iff closing_fence_eq)
  qed
  finally have 1: "sub_json_fence (json_fence @ w1 @ ?body @ ?rest) = ?body @ ?rest" .
  have "sub_closing_fence ((?body @ w2) @ closing_fence @ w3) = ?body @ w2"
    using w3 by (rule sub_closing_fence_decomp)
  then have 2: "sub_closing_fence (?body @ ?rest) = ?body @ w2" by simp
  have "\<forall>x \<in> set (rev w2). x \<noteq> cp (CHR ''}'')"
    using w2 nsp(2) by (auto simp: list_all_iff)
  then have "dropWhile (\<lambda>c. c \<noteq> cp (CHR ''}'')) (rev w2 @ cp (CHR ''}'') # rev mid @ [cp (CHR ''{'')])
               = cp (CHR ''}'') # rev mid @ [cp (CHR ''{'')]"
    by (simp add: dropWhile_append)
  then have 3: "first_to_last_brace (?body @ w2) = Some ?body"
    by (simp add: first_to_last_brace_def)
  have "clean_json_response (json_fence @ w1 @ ?body @ ?rest) = ?body"
    unfolding clean_json_response_def Let_def 1 2 search_braces_eq 3 by simp
  then show ?thesis by simp
qed

subsection \<open>The algorithm of clean_json_response\<close>

text \<open>
  Claim C4 fails as stated, in two places. The opener \<^verbatim>\<open>```json\<close> is removed wherever it
  occurs, not only when it leads the text: inside the brace span it is removed as well, so
  the span is not returned unchanged. And when there is no brace pair, what is trimmed and
  returned is the text left after both removals, not the original text.
\<close>

theorem clean_json_response_spec_counterexample:
  "clean_json_response (ustr ''{```json}'') = ustr ''{}''
   \<and> clean_json_response_spec (ustr ''{```json}'') = ustr ''{```json}''
   \<and> clean_json_response (ustr ''```json hi'') = ustr ''hi''
   \<and> clean_json_response_spec (ustr ''```json hi'') = ustr ''```json hi''"
  by (simp add: clean_json_response_def clean_json_response_spec_def sub_json_fence.simps
      json_fence_def closing_fence_def strip_leading_opener_def strip_trailing_closer_def
      first_to_last_brace_def py_strip_def isspace_def Let_def suffix_to_prefix ustr_def)

text \<open>
  Claim C4, as amended. For every input, the result is computed so: remove every
  occurrence of the opener \<^verbatim>\<open>```json\<close> together with the whitespace after it, wherever it
  is (the text before the first occurrence is kept, the opener and the whitespace after it
  are dropped, and so on in what follows); remove a closing \<^verbatim>\<open>```\<close> followed only by
  whitespace up to the end of the text, if there is one; return the text from the first
  \<^verbatim>\<open>{\<close> through the last \<^verbatim>\<open>}\<close> of what remains (not balance-checked) when such a pair
  exists; otherwise return what remains, trimmed of whitespace. In particular, a JSON
  object \<open>{mid}\<close> wrapped as opener, whitespace, object, whitespace, closer, whitespace is
  returned unchanged, provided the object itself does not contain the opener.
\<close>

theorem clean_json_response_algorithm:
  "clean_json_response raw = clean_json_response_amended raw
   \<and> (list_all isspace w1 \<and> list_all isspace w2 \<and> list_all isspace w3
        \<and> \<not> has_json_fence (ustr ''{'' @ mid @ ustr ''}'')
      \<longrightarrow> clean_json_response
            (ustr ''```json'' @ w1 @ ustr ''{'' @ mid @ ustr ''}'' @ w2 @ ustr ''```'' @ w3)
          = ustr ''{'' @ mid @ ustr ''}'')"
  using fenced_body [of w1 w2 w3 mid] clean_json_response_eq_amended [of raw]
  by (simp add: json_fence_def closing_fence_def ustr_def)

theorem clean_json_response_algorithm_witness:
  "list_all isspace [10] \<and> list_all isspace [8195, 32]
   \<and> \<not> has_json_fence (ustr ''{'' @ ustr ''a: {b}'' @ ustr ''}'')
   \<and> clean_json_response
         (ustr ''```json'' @ [10] @ ustr ''{'' @ ustr ''a: {b}'' @ ustr ''}'' @ [8195, 32]
            @ ustr ''```'' @ [10])
       = ustr ''{'' @ ustr ''a: {b}'' @ ustr ''}''
   \<and> clean_json_response (ustr ''x ```json  y ``` '') = ustr ''x y''
   \<and> clean_json_response_amended (ustr ''x ```json  y ``` '') = ustr ''x y''"
proof -
  have a: "list_all isspace [10]" by (simp add: isspace_def)
  have a': "list_all isspace [8195, 32]" by (simp add: isspace_def)
  have b: "\<not> has_json_fence (ustr ''{'' @ ustr ''a: {b}'' @ ustr ''}'')"
    by (simp add: json_fence_def ustr_def)
  from a a' b have h: "list_all isspace [10] \<and> list_all isspace [8195, 32]
      \<and> list_all isspace [10] \<and> \<not> has_json_fence (ustr ''{'' @ ustr ''a: {b}'' @ ustr ''}'')"
    by (intro conjI)
  note t = clean_json_response_algorithm
             [of "ustr ''x ```json  y ``` ''" "[10]" "[8195, 32]" "[10]" "ustr ''a: {b}''"]
  from t [THEN conjunct2, THEN mp, OF h]
  have c: "clean_json_response
         (ustr ''```json'' @ [10] @ ustr ''{'' @ ustr ''a: {b}'' @ ustr ''}'' @ [8195, 32]
            @ ustr ''```'' @ [10])
       = ustr ''{'' @ ustr ''a: {b}'' @ ustr ''}''" .
  have e: "clean_json_response (ustr ''x ```json  y ``` '') = ustr ''x y''"
    by (simp add: clean_json_response_def sub_json_fence.simps json_fence_def closing_fence_def
        first_to_last_brace_def py_strip_def isspace_def Let_def ustr_def)
  from t [THEN conjunct1] e
  have d: "clean_json_response_amended (ustr ''x ```json  y ``` '') = ustr ''x y''" by simp
  from a a' b c e d show ?thesis by (intro conjI)
qed

declare str_nat.simps [simp del]

section \<open>Properties of to_markdown\<close>

lemma foldl_appending:
  assumes "\<And>md x. f md x = md @ f [] x"
  shows "foldl f md xs = md @ concat (map (f []) xs)"
proof (induction xs arbitrary: md)
  case Nil
  show ?case by simp
next
  case (Cons x xs)
  have "foldl f md (x # xs) = foldl f (f md x) xs" by simp
  also have "\<dots> = f md x @ concat (map (f []) xs)" by (rule Cons.IH)
  also have "f md x = md @ f [] x" by (rule assms)
  finally show ?case by simp
qed

lemma bullet_md_appends: "bullet_md md x = md @ bullet_md [] x"
  by (simp add: bullet_md_def)

lemma task_md_appends: "task_md md t = md @ task_md [] t"
  by (simp add: task_md_def Let_def)

lemma foldl_bullet_md: "foldl bullet_md md xs = md @ concat (map (bullet_md []) xs)"
  by (rule foldl_appending) (rule bullet_md_appends)

lemma foldl_task_md: "foldl task_md md ts = md @ concat (map (task_md []) ts)"
  by (rule foldl_appending) (rule task_md_appends)

lemma milestone_md_unfold:
  "milestone_md md m =
     md @ ''### '' @ Milestone.name m @ '' (Week '' @ str_int (week_number m) @ '')'' @ nl
        @ Milestone.description m @ nl @ nl
        @ ''**Deliverables:**'' @ nl @ concat (map (bullet_md []) (deliverables m))
        @ nl @ ''**Tasks:**'' @ nl @ concat (map (task_md []) (tasks m))
        @ nl @ ''**Success Criteria:**'' @ nl @ concat (map (bullet_md []) (success_criteria m))
        @ nl"
  by (simp add: milestone_md_def Let_def foldl_bullet_md foldl_task_md)

lemma milestone_md_appends: "milestone_md md m = md @ milestone_md [] m"
  by (simp add: milestone_md_unfold)

lemma foldl_milestone_md:
  "foldl milestone_md md ms = md @ concat (map (milestone_md []) ms)"
  by (rule foldl_appending) (rule milestone_md_appends)

lemma to_markdown_unfold:
  "to_markdown p =
     ''# '' @ project_name p @ nl @ nl
     @ ''**Project Summary:** '' @ project_summary p @ nl @ nl
     @ ''**Total Duration:** '' @ str_int (total_weeks p) @ '' weeks'' @ nl @ nl
     @ ''## Milestones'' @ nl @ nl
     @ concat (map (milestone_md []) (milestones p))
     @ foldl bullet_md
         (foldl bullet_md
            (foldl risk_md (''## Top 3 Risks'' @ nl @ nl) (enumerate1 (risks p))
               @ ''## Monitoring Checkpoints'' @ nl @ nl)
            (monitoring_checkpoints p)
          @ nl @ ''## Parallel Work Opportunities'' @ nl @ nl)
         (parallel_opportunities p)"
proof -
  have risk: "risk_md md ir = md @ risk_md [] ir" for md ir
    by (simp add: risk_md_def Let_def)
  have r: "foldl risk_md md irs = md @ concat (map (risk_md []) irs)" for md irs
    by (rule foldl_appending) (rule risk)
  show ?thesis
    by (simp add: to_markdown_def Let_def foldl_milestone_md foldl_bullet_md r)
qed

lemma parallel_suffix:
  "suffix '' (Can be done in parallel)''
     (''- **'' @ n @ ''** ('' @ h @ ''h)'' @ (if b then '' (Can be done in parallel)'' else ''''))
   \<longleftrightarrow> b"
proof (cases b)
  case True
  then show ?thesis by (simp add: suffix_def)
next
  case False
  have "\<not> suffix (x @ [CHR ''l'', CHR '')'']) (y @ [CHR ''h'', CHR '')''])" for x y :: string
    by (auto simp: suffix_def)
  from this [of "'' (Can be done in paralle''" "''- **'' @ n @ ''** ('' @ h"]
  show ?thesis using False by simp
qed

text \<open>
  Claim C8. \<open>to_markdown\<close> is a function of the plan alone, so equal plans give equal
  text. The text is the fixed frame below: in the Milestones section, one block per
  milestone, in list order; each block starts with the milestone's H3 heading line,
  \<^verbatim>\<open>### name (Week n)\<close>, and holds one entry per task in list order; the first line of a
  task's entry ends with the suffix \<^verbatim>\<open>(Can be done in parallel)\<close> exactly when the task is
  marked \<^verbatim>\<open>can_parallel\<close>.
\<close>

theorem to_markdown_structure:
  "(p = q \<longrightarrow> to_markdown p = to_markdown q)
   \<and> to_markdown p =
       ''# '' @ project_name p @ nl @ nl
       @ ''**Project Summary:** '' @ project_summary p @ nl @ nl
       @ ''**Total Duration:** '' @ str_int (total_weeks p) @ '' weeks'' @ nl @ nl
       @ ''## Milestones'' @ nl @ nl
       @ concat (map (milestone_md []) (milestones p))
       @ ''## Top 3 Risks'' @ nl @ nl
       @ concat (map (risk_md []) (enumerate1 (risks p)))
       @ ''## Monitoring Checkpoints'' @ nl @ nl
       @ concat (map (bullet_md []) (monitoring_checkpoints p))
       @ nl @ ''## Parallel Work Opportunities'' @ nl @ nl
       @ concat (map (bullet_md []) (parallel_opportunities p))
   \<and> milestone_md [] m =
       ''### '' @ Milestone.name m @ '' (Week '' @ str_int (week_number m) @ '')'' @ nl
       @ Milestone.description m @ nl @ nl
       @ ''**Deliverables:**'' @ nl @ concat (map (bullet_md []) (deliverables m))
       @ nl @ ''**Tasks:**'' @ nl @ concat (map (task_md []) (tasks m))
       @ nl @ ''**Success Criteria:**'' @ nl @ concat (map (bullet_md []) (success_criteria m))
       @ nl
   \<and> task_md [] t =
       (''- **'' @ Task.name t @ ''** ('' @ str_int (estimated_hours t) @ ''h)''
          @ (if can_parallel t then '' (Can be done in parallel)'' else '''')) @ nl
       @ ''  '' @ Task.description t @ nl
       @ (if dependencies t \<noteq> []
          then ''  Dependencies: '' @ join '', '' (dependencies t) @ nl else '''')
   \<and> (suffix '' (Can be done in parallel)''
         (''- **'' @ Task.name t @ ''** ('' @ str_int (estimated_hours t) @ ''h)''
            @ (if can_parallel t then '' (Can be done in parallel)'' else ''''))
       \<longleftrightarrow> can_parallel t)"
proof (intro conjI)
  show "p = q \<longrightarrow> to_markdown p = to_markdown q" by simp
next
  have risk: "risk_md md ir = md @ risk_md [] ir" for md ir
    by (simp add: risk_md_def Let_def)
  have "foldl risk_md md irs = md @ concat (map (risk_md []) irs)" for md irs
    by (rule foldl_appending) (rule risk)
  then show "to_markdown p =
       ''# '' @ project_name p @ nl @ nl
       @ ''**Project Summary:** '' @ project_summary p @ nl @ nl
       @ ''**Total Duration:** '' @ str_int (total_weeks p) @ '' weeks'' @ nl @ nl
       @ ''## Milestones'' @ nl @ nl
       @ concat (map (milestone_md []) (milestones p))
       @ ''## Top 3 Risks'' @ nl @ nl
       @ concat (map (risk_md []) (enumerate1 (risks p)))
       @ ''## Monitoring Checkpoints'' @ nl @ nl
       @ concat (map (bullet_md []) (monitoring_checkpoints p))
       @ nl @ ''## Parallel Work Opportunities'' @ nl @ nl
       @ concat (map (bullet_md []) (parallel_opportunities p))"
    by (simp add: to_markdown_unfold foldl_bullet_md)
next
  show "milestone_md [] m =
       ''### '' @ Milestone.name m @ '' (Week '' @ str_int (week_number m) @ '')'' @ nl
       @ Milestone.description m @ nl @ nl
       @ ''**Deliverables:**'' @ nl @ concat (map (bullet_md []) (deliverables m))
       @ nl @ ''**Tasks:**'' @ nl @ concat (map (task_md []) (tasks m))
       @ nl @ ''**Success Criteria:**'' @ nl @ concat (map (bullet_md []) (success_criteria m))
       @ nl"
    using milestone_md_unfold [of "[]" m] by simp
next
  show "task_md [] t =
       (''- **'' @ Task.name t @ ''** ('' @ str_int (estimated_hours t) @ ''h)''
          @ (if can_parallel t then '' (Can be done in parallel)'' else '''')) @ nl
       @ ''  '' @ Task.description t @ nl
       @ (if dependencies t \<noteq> []
          then ''  Dependencies: '' @ join '', '' (dependencies t) @ nl else '''')"
    by (simp add: task_md_def Let_def)
next
  show "suffix '' (Can be done in parallel)''
         (''- **'' @ Task.name t @ ''** ('' @ str_int (estimated_hours t) @ ''h)''
            @ (if can_parallel t then '' (Can be done in parallel)'' else ''''))
       \<longleftrightarrow> can_parallel t"
    by (rule parallel_suffix)
qed

lemma str_int_digits: "str_int 3 = ''3''" "str_int 2 = ''2''" "str_int 1 = ''1''" "str_int 4 = ''4''"
  by code_simp+

theorem to_markdown_structure_witness:
  "to_markdown
     \<lparr>project_name = ''Todo'', project_summary = ''A todo app'', total_weeks = 4,
      milestones =
        [\<lparr>Milestone.name = ''MVP'', description = ''First cut'', week_number = 2,
          deliverables = [''App''],
          tasks = [\<lparr>Task.name = ''Design'', description = ''Draw it'', estimated_hours = 3,
                    dependencies = [], can_parallel = True\<rparr>],
          success_criteria = []\<rparr>],
      risks = [], monitoring_checkpoints = [], parallel_opportunities = []\<rparr>
   = ''# Todo'' @ [CHR 10, CHR 10]
     @ ''**Project Summary:** A todo app'' @ [CHR 10, CHR 10]
     @ ''**Total Duration:** 4 weeks'' @ [CHR 10, CHR 10]
     @ ''## Milestones'' @ [CHR 10, CHR 10]
     @ ''### MVP (Week 2)'' @ [CHR 10]
     @ ''First cut'' @ [CHR 10, CHR 10]
     @ ''**Deliverables:**'' @ [CHR 10]
     @ ''- App'' @ [CHR 10, CHR 10]
     @ ''**Tasks:**'' @ [CHR 10]
     @ ''- **Design** (3h) (Can be done in parallel)'' @ [CHR 10]
     @ ''  Draw it'' @ [CHR 10, CHR 10]
     @ ''**Success Criteria:**'' @ [CHR 10, CHR 10]
     @ ''## Top 3 Risks'' @ [CHR 10, CHR 10]
     @ ''## Monitoring Checkpoints'' @ [CHR 10, CHR 10, CHR 10]
     @ ''## Parallel Work Opportunities'' @ [CHR 10, CHR 10]"
proof -
  let ?t = "\<lparr>Task.name = ''Design'', description = ''Draw it'', estimated_hours = 3,
                    dependencies = [], can_parallel = True\<rparr>"
  let ?m = "\<lparr>Milestone.name = ''MVP'', description = ''First cut'', week_number = 2,
          deliverables = [''App''], tasks = [?t], success_criteria = []\<rparr>"
  let ?p = "\<lparr>project_name = ''Todo'', project_summary = ''A todo app'', total_weeks = 4,
      milestones = [?m], risks = [], monitoring_checkpoints = [],
      parallel_opportunities = []\<rparr>"
  note s = to_markdown_structure [of ?p ?p ?m ?t]
  have "?p = ?p" ..
  with s have same: "to_markdown ?p = to_markdown ?p" by (rule conjunct1 [THEN mp])
  have doc: "to_markdown ?p =
       ''# Todo'' @ nl @ nl @ ''**Project Summary:** A todo app'' @ nl @ nl
       @ ''**Total Duration:** '' @ str_int 4 @ '' weeks'' @ nl @ nl
       @ ''## Milestones'' @ nl @ nl @ milestone_md [] ?m
       @ ''## Top 3 Risks'' @ nl @ nl @ ''## Monitoring Checkpoints'' @ nl @ nl
       @ nl @ ''## Parallel Work Opportunities'' @ nl @ nl"
    using s [THEN conjunct2, THEN conjunct1] by (simp add: enumerate1_def)
  have ms: "milestone_md [] ?m =
       ''### MVP (Week '' @ str_int 2 @ '')'' @ nl @ ''First cut'' @ nl @ nl
       @ ''**Deliverables:**'' @ nl @ ''- App'' @ nl
       @ nl @ ''**Tasks:**'' @ nl @ task_md [] ?t
       @ nl @ ''**Success Criteria:**'' @ nl @ nl"
    using s [THEN conjunct2, THEN conjunct2, THEN conjunct1] by (simp add: bullet_md_def)
  have tk: "task_md [] ?t =
       ''- **Design** ('' @ str_int 3 @ ''h) (Can be done in parallel)'' @ nl
       @ ''  Draw it'' @ nl"
    using s [THEN conjunct2, THEN conjunct2, THEN conjunct2, THEN conjunct1] by simp
  show ?thesis
    unfolding doc ms tk str_int_digits nl_def by simp
qed

section \<open>Properties of Plan construction\<close>

lemma those_map_inverse:
  assumes "\<And>x. f (g x) = Some x"
  shows "those (map f (map g xs)) = Some xs"
proof (induction xs)
  case Nil
  show ?case by simp
next
  case (Cons x xs)
  then show ?case by (simp add: assms)
qed

lemma list_of_inverse:
  assumes "\<And>x. f (g x) = Some x"
  shows "list_of f (PList (map g xs)) = Some xs"
  using those_map_inverse [of f g xs, OF assms] by (simp add: list_of_def del: map_map)

lemma Risk_roundtrip:
  assumes "accepts_exact P"
  shows "model_of (Risk_fields P) (Risk_dump r) = Some r"
  using assms
  by (simp add: model_of_def Risk_dump_def Risk_fields_def required_def accepts_exact_def)

lemma Task_roundtrip:
  assumes "accepts_exact P"
  shows "model_of (Task_fields P) (Task_dump t) = Some t"
proof -
  have s: "str_validator P (PStr x) = Some x" for x
    using assms by (simp add: accepts_exact_def)
  have "list_of (str_validator P) (PList (map PStr (dependencies t))) = Some (dependencies t)"
    by (rule list_of_inverse) (rule s)
  then show ?thesis using assms
    by (simp add: model_of_def Task_dump_def Task_fields_def required_def with_default_def
        accepts_exact_def)
qed

lemma Milestone_roundtrip:
  assumes "accepts_exact P"
  shows "model_of (Milestone_fields P) (Milestone_dump m) = Some m"
proof -
  have s: "str_validator P (PStr x) = Some x" for x
    using assms by (simp add: accepts_exact_def)
  have l: "list_of (str_validator P) (PList (map PStr xs)) = Some xs" for xs
    by (rule list_of_inverse) (rule s)
  have t: "list_of (model_of (Task_fields P)) (PList (map Task_dump (tasks m))) = Some (tasks m)"
    by (rule list_of_inverse) (rule Task_roundtrip [OF assms])
  show ?thesis using assms
    by (simp add: model_of_def Milestone_dump_def Milestone_fields_def required_def l t
        accepts_exact_def)
qed

lemma Plan_roundtrip:
  assumes "accepts_exact P"
  shows "Plan_fields P (Plan_dump p) = Some p"
proof -
  have s: "str_validator P (PStr x) = Some x" for x
    using assms by (simp add: accepts_exact_def)
  have l: "list_of (str_validator P) (PList (map PStr xs)) = Some xs" for xs
    by (rule list_of_inverse) (rule s)
  have m: "list_of (model_of (Milestone_fields P)) (PList (map Milestone_dump ms)) = Some ms" for ms
    by (rule list_of_inverse) (rule Milestone_roundtrip [OF assms])
  have r: "list_of (model_of (Risk_fields P)) (PList (map Risk_dump rs)) = Some rs" for rs
    by (rule list_of_inverse) (rule Risk_roundtrip [OF assms])
  show ?thesis using assms
    by (simp add: Plan_dump_def Plan_fields_def required_def l m r accepts_exact_def)
qed

lemma accepts_exact_exact_pydantic: "accepts_exact exact_pydantic"
  by (simp add: accepts_exact_def exact_pydantic_def)

text \<open>
  Claim C6 fails as stated: construction checks the declared field types (\<^verbatim>\<open>str\<close>, \<^verbatim>\<open>int\<close>,
  \<^verbatim>\<open>List[...]\<close>) and no value. The plan below is constructed although its risk has impact
  "Critical" and probability "Rare", its task takes -5 hours, its milestone is due in week
  0 and has no deliverables, and its total duration is -1 weeks.
\<close>

theorem plan_invariants_counterexample:
  "Plan_construct exact_pydantic
     [(''project_name'', PStr ''X''),
      (''project_summary'', PStr ''S''),
      (''total_weeks'', PInt (- 1)),
      (''milestones'', PList [PDict
         [(''name'', PStr ''M''),
          (''description'', PStr ''D''),
          (''week_number'', PInt 0),
          (''deliverables'', PList []),
          (''tasks'', PList [PDict
             [(''name'', PStr ''T''),
              (''description'', PStr ''D''),
              (''estimated_hours'', PInt (- 5))]]),
          (''success_criteria'', PList [])]]),
      (''risks'', PList [PDict
         [(''title'', PStr ''R''),
          (''description'', PStr ''D''),
          (''impact'', PStr ''Critical''),
          (''probability'', PStr ''Rare''),
          (''mitigation'', PStr ''None'')]]),
      (''monitoring_checkpoints'', PList []),
      (''parallel_opportunities'', PList [])]
   = Inr
     \<lparr>project_name = ''X'', project_summary = ''S'', total_weeks = - 1,
      milestones =
        [\<lparr>Milestone.name = ''M'', description = ''D'', week_number = 0, deliverables = [],
          tasks = [\<lparr>Task.name = ''T'', description = ''D'', estimated_hours = - 5,
                    dependencies = [], can_parallel = False\<rparr>],
          success_criteria = []\<rparr>],
      risks = [\<lparr>title = ''R'', description = ''D'', impact = ''Critical'',
                probability = ''Rare'', mitigation = ''None''\<rparr>],
      monitoring_checkpoints = [], parallel_opportunities = []\<rparr>
   \<and> \<not> risk_levels_ok
     \<lparr>project_name = ''X'', project_summary = ''S'', total_weeks = - 1,
      milestones =
        [\<lparr>Milestone.name = ''M'', description = ''D'', week_number = 0, deliverables = [],
          tasks = [\<lparr>Task.name = ''T'', description = ''D'', estimated_hours = - 5,
                    dependencies = [], can_parallel = False\<rparr>],
          success_criteria = []\<rparr>],
      risks = [\<lparr>title = ''R'', description = ''D'', impact = ''Critical'',
                probability = ''Rare'', mitigation = ''None''\<rparr>],
      monitoring_checkpoints = [], parallel_opportunities = []\<rparr>
   \<and> \<not> hours_ok
     \<lparr>project_name = ''X'', project_summary = ''S'', total_weeks = - 1,
      milestones =
        [\<lparr>Milestone.name = ''M'', description = ''D'', week_number = 0, deliverables = [],
          tasks = [\<lparr>Task.name = ''T'', description = ''D'', estimated_hours = - 5,
                    dependencies = [], can_parallel = False\<rparr>],
          success_criteria = []\<rparr>],
      risks = [\<lparr>title = ''R'', description = ''D'', impact = ''Critical'',
                probability = ''Rare'', mitigation = ''None''\<rparr>],
      monitoring_checkpoints = [], parallel_opportunities = []\<rparr>
   \<and> \<not> weeks_ok
     \<lparr>project_name = ''X'', project_summary = ''S'', total_weeks = - 1,
      milestones =
        [\<lparr>Milestone.name = ''M'', description = ''D'', week_number = 0, deliverables = [],
          tasks = [\<lparr>Task.name = ''T'', description = ''D'', estimated_hours = - 5,
                    dependencies = [], can_parallel = False\<rparr>],
          success_criteria = []\<rparr>],
      risks = [\<lparr>title = ''R'', description = ''D'', impact = ''Critical'',
                probability = ''Rare'', mitigation = ''None''\<rparr>],
      monitoring_checkpoints = [], parallel_opportunities = []\<rparr>
   \<and> \<not> deliverables_ok
     \<lparr>project_name = ''X'', project_summary = ''S'', total_weeks = - 1,
      milestones =
        [\<lparr>Milestone.name = ''M'', description = ''D'', week_number = 0, deliverables = [],
          tasks = [\<lparr>Task.name = ''T'', description = ''D'', estimated_hours = - 5,
                    dependencies = [], can_parallel = False\<rparr>],
          success_criteria = []\<rparr>],
      risks = [\<lparr>title = ''R'', description = ''D'', impact = ''Critical'',
                probability = ''Rare'', mitigation = ''None''\<rparr>],
      monitoring_checkpoints = [], parallel_opportunities = []\<rparr>
   \<and> \<not> total_weeks_ok
     \<lparr>project_name = ''X'', project_summary = ''S'', total_weeks = - 1,
      milestones =
        [\<lparr>Milestone.name = ''M'', description = ''D'', week_number = 0, deliverables = [],
          tasks = [\<lparr>Task.name = ''T'', description = ''D'', estimated_hours = - 5,
                    dependencies = [], can_parallel = False\<rparr>],
          success_criteria = []\<rparr>],
      risks = [\<lparr>title = ''R'', description = ''D'', impact = ''Critical'',
                probability = ''Rare'', mitigation = ''None''\<rparr>],
      monitoring_checkpoints = [], parallel_opportunities = []\<rparr>"
proof (intro conjI)
  show "Plan_construct exact_pydantic
     [(''project_name'', PStr ''X''),
      (''project_summary'', PStr ''S''),
      (''total_weeks'', PInt (- 1)),
      (''milestones'', PList [PDict
         [(''name'', PStr ''M''),
          (''description'', PStr ''D''),
          (''week_number'', PInt 0),
          (''deliverables'', PList []),
          (''tasks'', PList [PDict
             [(''name'', PStr ''T''),
              (''description'', PStr ''D''),
              (''estimated_hours'', PInt (- 5))]]),
          (''success_criteria'', PList [])]]),
      (''risks'', PList [PDict
         [(''title'', PStr ''R''),
          (''description'', PStr ''D''),
          (''impact'', PStr ''Critical''),
          (''probability'', PStr ''Rare''),
          (''mitigation'', PStr ''None'')]]),
      (''monitoring_checkpoints'', PList []),
      (''parallel_opportunities'', PList [])]
   = Inr
     \<lparr>project_name = ''X'', project_summary = ''S'', total_weeks = - 1,
      milestones =
        [\<lparr>Milestone.name = ''M'', description = ''D'', week_number = 0, deliverables = [],
          tasks = [\<lparr>Task.name = ''T'', description = ''D'', estimated_hours = - 5,
                    dependencies = [], can_parallel = False\<rparr>],
          success_criteria = []\<rparr>],
      risks = [\<lparr>title = ''R'', description = ''D'', impact = ''Critical'',
                probability = ''Rare'', mitigation = ''None''\<rparr>],
      monitoring_checkpoints = [], parallel_opportunities = []\<rparr>"
    by (simp add: Plan_construct_def Plan_fields_def Milestone_fields_def Task_fields_def
        Risk_fields_def required_def with_default_def list_of_def model_of_def
        exact_pydantic_def)
qed (simp_all add: risk_levels_ok_def level_def hours_ok_def weeks_ok_def deliverables_ok_def
      total_weeks_ok_def)

text \<open>
  Claim C6, as amended. Construction enforces the declared field types and nothing more:
  whatever strings a plan carries as impact and probability, whatever integers (zero and
  negative ones included) as hours, week numbers and total weeks, and with or without
  deliverables, the plan is what construction returns on its field-for-field dictionary.
  This holds for every pydantic instance that accepts values of the declared type.
\<close>

theorem plan_construct_checks_types_only:
  assumes "accepts_exact P"
  shows "Plan_construct P (Plan_dump p) = Inr p"
  by (simp add: Plan_construct_def Plan_roundtrip [OF assms])

theorem plan_construct_checks_types_only_witness:
  "accepts_exact exact_pydantic
   \<and> Plan_construct exact_pydantic
       (Plan_dump \<lparr>project_name = ''X'', project_summary = ''S'', total_weeks = 0,
          milestones = [], risks = [\<lparr>title = ''R'', description = ''D'', impact = ''Critical'',
                probability = ''Rare'', mitigation = ''None''\<rparr>],
          monitoring_checkpoints = [], parallel_opportunities = []\<rparr>)
     = Inr \<lparr>project_name = ''X'', project_summary = ''S'', total_weeks = 0,
          milestones = [], risks = [\<lparr>title = ''R'', description = ''D'', impact = ''Critical'',
                probability = ''Rare'', mitigation = ''None''\<rparr>],
          monitoring_checkpoints = [], parallel_opportunities = []\<rparr>"
  using plan_construct_checks_types_only [OF accepts_exact_exact_pydantic]
    accepts_exact_exact_pydantic
  by (intro conjI)

section \<open>Properties of generate_plan\<close>

text \<open>
  Claim C1. Whatever the provider, the parser and pydantic do, \<^verbatim>\<open>generate_plan\<close> returns a
  pair with exactly one component set: the plan and no message when the \<^verbatim>\<open>try\<close> block runs
  to its end, no plan and a message when anything in it raises. Every exception of the
  block is turned into a message by one of the two handlers; none leaves the function.
\<close>

theorem generate_plan_exactly_one:
  "(\<forall>plan. try_block P llm loads brief = Inr plan
       \<longrightarrow> generate_plan P llm loads brief = (Some plan, None))
   \<and> (\<forall>e. try_block P llm loads brief = Inl e
       \<longrightarrow> (\<exists>msg. generate_plan P llm loads brief = (None, Some msg)))
   \<and> ((\<exists>plan. generate_plan P llm loads brief = (Some plan, None))
       \<or> (\<exists>msg. generate_plan P llm loads brief = (None, Some msg)))"
proof -
  have a: "generate_plan P llm loads brief = (Some plan, None)"
    if "try_block P llm loads brief = Inr plan" for plan
    using that by (simp add: generate_plan_def)
  have b: "\<exists>msg. generate_plan P llm loads brief = (None, Some msg)"
    if "try_block P llm loads brief = Inl e" for e
    using that by (cases e) (simp_all add: generate_plan_def)
  have "(\<exists>plan. generate_plan P llm loads brief = (Some plan, None))
       \<or> (\<exists>msg. generate_plan P llm loads brief = (None, Some msg))"
    using a b by (cases "try_block P llm loads brief") blast+
  with a b show ?thesis by blast
qed

lemma default_plan_constructed:
  "try_block exact_pydantic (\<lambda>brief. Inr (Some (ustr ''{}''))) (\<lambda>text. Inr (PDict [])) ''Build a todo app''
   = Inr \<lparr>project_name = ''Untitled Project'', project_summary = ''No summary provided'',
          total_weeks = 4, milestones = [],
          risks = replicate 3
            \<lparr>title = ''Generic Risk'', description = ''Standard project risk'',
             impact = ''Medium'', probability = ''Medium'',
             mitigation = ''Monitor and adjust as needed''\<rparr>,
          monitoring_checkpoints = [], parallel_opportunities = []\<rparr>"
  by (simp add: try_block_def validate_empty Plan_construct_def Plan_fields_def
      Risk_fields_def required_def list_of_def model_of_def exact_pydantic_def
      generic_risk_def numeral_3_eq_3)

theorem generate_plan_exactly_one_witness:
  "generate_plan exact_pydantic (\<lambda>brief. Inr (Some (ustr ''{}''))) (\<lambda>text. Inr (PDict []))
     ''Build a todo app''
   = (Some \<lparr>project_name = ''Untitled Project'', project_summary = ''No summary provided'',
          total_weeks = 4, milestones = [],
          risks = replicate 3
            \<lparr>title = ''Generic Risk'', description = ''Standard project risk'',
             impact = ''Medium'', probability = ''Medium'',
             mitigation = ''Monitor and adjust as needed''\<rparr>,
          monitoring_checkpoints = [], parallel_opportunities = []\<rparr>, None)"
  using generate_plan_exactly_one
          [of exact_pydantic "\<lambda>brief. Inr (Some (ustr ''{}''))" "\<lambda>text. Inr (PDict [])"
              "''Build a todo app''", THEN conjunct1, THEN spec, THEN mp,
           OF default_plan_constructed] .

lemma format_error_message_class:
  assumes "CHR '')'' \<notin> set cls" and "CHR '')'' \<notin> set cls'"
    and "format_error_message (Raised cls msg) = format_error_message (Raised cls' msg')"
  shows "cls = cls'"
proof -
  have tw: "takeWhile (\<lambda>c. c \<noteq> CHR '')'') (c @ ''): '' @ m) = c" if "CHR '')'' \<notin> set c" for c m
    using that by (auto simp: takeWhile_append)
  from assms(3) have "cls @ ''): '' @ msg = cls' @ ''): '' @ msg'"
    by (simp add: format_error_message_def)
  then have "takeWhile (\<lambda>c. c \<noteq> CHR '')'') (cls @ ''): '' @ msg)
              = takeWhile (\<lambda>c. c \<noteq> CHR '')'') (cls' @ ''): '' @ msg')" by simp
  then show ?thesis using tw [OF assms(1)] tw [OF assms(2)] by simp
qed

lemma format_error_message_schema:
  assumes "CHR '')'' \<notin> set cls"
  shows "format_error_message (Raised cls pmsg) = ''Error (ValidationError): '' @ txt
         \<longleftrightarrow> cls = ''ValidationError'' \<and> pmsg = txt"
proof
  assume a: "format_error_message (Raised cls pmsg) = ''Error (ValidationError): '' @ txt"
  then have e: "format_error_message (Raised cls pmsg)
               = format_error_message (Raised ''ValidationError'' txt)"
    by (simp add: format_error_message_def)
  have "CHR '')'' \<notin> set ''ValidationError''" by simp
  with assms e have c: "cls = ''ValidationError''"
    using format_error_message_class by blast
  with a have "pmsg = txt" by (simp add: format_error_message_def)
  with c show "cls = ''ValidationError'' \<and> pmsg = txt" ..
next
  assume "cls = ''ValidationError'' \<and> pmsg = txt"
  then show "format_error_message (Raised cls pmsg) = ''Error (ValidationError): '' @ txt"
    by (simp add: format_error_message_def)
qed

lemma schema_failure_reported:
  "generate_plan exact_pydantic (provider_returns (ustr ''{}''))
     (parser_returns (PDict [(''total_weeks'', PStr ''four''), (''risks'', PStr ''abc'')]))
     ''Build a todo app''
   = (None, Some ''Error (ValidationError): validation errors for Plan'')"
proof -
  let ?data = "[(''total_weeks'', PStr ''four''), (''risks'', PStr ''abc''),
      (''project_name'', PStr ''Untitled Project''),
      (''project_summary'', PStr ''No summary provided''),
      (''milestones'', PList []),
      (''monitoring_checkpoints'', PList []),
      (''parallel_opportunities'', PList [])]"
  have v: "validate_json_structure [(''total_weeks'', PStr ''four''), (''risks'', PStr ''abc'')]
             = Inr ?data"
    by (simp add: validate_json_structure_def ensure_required_def required_fields_def
        ensure_field_def)
  have c: "Plan_construct exact_pydantic ?data
             = Inl (Raised ''ValidationError'' ''validation errors for Plan'')"
    by (simp add: Plan_construct_def Plan_fields_def required_def exact_pydantic_def)
  show ?thesis
    by (simp add: generate_plan_def try_block_def provider_returns_def parser_returns_def
        v c format_error_message_def)
qed

text \<open>
  Claim C9 fails as stated: the two reports are not distinct from a provider failure.
  Both handlers enclose the provider call. A \<^verbatim>\<open>json.JSONDecodeError\<close> raised by the call
  itself is reported exactly as a parse failure of the sanitized text is; and a provider
  exception whose class is named \<^verbatim>\<open>ValidationError\<close> is reported exactly as a failed Plan
  construction is. In the first and the third run below the provider fails (the parser
  would have succeeded); in the second the parser fails; in the fourth construction fails.
\<close>

theorem error_kinds_counterexample:
  "generate_plan exact_pydantic
     (provider_raises (JSONDecodeError ''Expecting value: line 1 column 1 (char 0)''))
     (parser_returns (PDict [])) ''Build a todo app''
   = (None, Some ''Invalid JSON response from AI: Expecting value: line 1 column 1 (char 0)'')
   \<and> generate_plan exact_pydantic (provider_returns (ustr ''oops''))
     (parser_raises (JSONDecodeError ''Expecting value: line 1 column 1 (char 0)''))
     ''Build a todo app''
   = (None, Some ''Invalid JSON response from AI: Expecting value: line 1 column 1 (char 0)'')
   \<and> generate_plan exact_pydantic
     (provider_raises (Raised ''ValidationError'' ''validation errors for Plan''))
     (parser_returns (PDict [])) ''Build a todo app''
   = (None, Some ''Error (ValidationError): validation errors for Plan'')
   \<and> generate_plan exact_pydantic (provider_returns (ustr ''{}''))
     (parser_returns (PDict [(''total_weeks'', PStr ''four''), (''risks'', PStr ''abc'')]))
     ''Build a todo app''
   = (None, Some ''Error (ValidationError): validation errors for Plan'')"
proof (intro conjI)
  show "generate_plan exact_pydantic (provider_returns (ustr ''{}''))
     (parser_returns (PDict [(''total_weeks'', PStr ''four''), (''risks'', PStr ''abc'')]))
     ''Build a todo app''
   = (None, Some ''Error (ValidationError): validation errors for Plan'')"
    by (rule schema_failure_reported)
qed (simp_all add: generate_plan_def try_block_def provider_raises_def provider_returns_def
      parser_raises_def parser_returns_def format_error_message_def)

text \<open>
  Claim C9, as amended. Let the provider return a content. When \<^verbatim>\<open>json.loads\<close> rejects
  the sanitized text, the message is "Invalid JSON response from AI: " followed by the
  parser's message. When the text parses and validation returns, but Plan construction
  fails, the exception is pydantic's \<^verbatim>\<open>ValidationError\<close> and the message is
  "Error (ValidationError): " followed by its text. These two messages always differ from
  each other. Neither is set apart from provider failures: a \<^verbatim>\<open>json.JSONDecodeError\<close>
  raised by the provider call gives the invalid-JSON message too, and any other provider
  exception is reported as "Error (class): text", which is never the invalid-JSON message
  and is the schema message exactly when the class is named \<^verbatim>\<open>ValidationError\<close> and the
  text is the same (a class name being an identifier, it contains no parenthesis).
\<close>

theorem generate_plan_error_kinds:
  assumes "llm brief = Inr (Some content)"
  shows "(loads (clean_json_response content) = Inl (JSONDecodeError msg)
          \<longrightarrow> generate_plan P llm loads brief
                = (None, Some (''Invalid JSON response from AI: '' @ msg)))
       \<and> (loads (clean_json_response content) = Inr plan_data
            \<and> validate_value plan_data = Inr data \<and> Plan_construct P data = Inl cause
          \<longrightarrow> cause = Raised ''ValidationError'' (error_text P data)
              \<and> generate_plan P llm loads brief
                = (None, Some (''Error (ValidationError): '' @ error_text P data)))
       \<and> ''Invalid JSON response from AI: '' @ msg \<noteq> ''Error (ValidationError): '' @ txt
       \<and> (llm' brief = Inl (JSONDecodeError pmsg)
          \<longrightarrow> generate_plan P llm' loads brief
                = (None, Some (''Invalid JSON response from AI: '' @ pmsg)))
       \<and> (llm' brief = Inl (Raised cls pmsg)
          \<longrightarrow> generate_plan P llm' loads brief
                = (None, Some (format_error_message (Raised cls pmsg))))
       \<and> format_error_message (Raised cls pmsg) \<noteq> ''Invalid JSON response from AI: '' @ msg
       \<and> (CHR '')'' \<notin> set cls
          \<longrightarrow> (format_error_message (Raised cls pmsg) = ''Error (ValidationError): '' @ txt
               \<longleftrightarrow> cls = ''ValidationError'' \<and> pmsg = txt))"
proof (intro conjI impI)
  assume "loads (clean_json_response content) = Inl (JSONDecodeError msg)"
  with assms show "generate_plan P llm loads brief
                = (None, Some (''Invalid JSON response from AI: '' @ msg))"
    by (simp add: generate_plan_def try_block_def)
next
  assume a: "loads (clean_json_response content) = Inr plan_data
            \<and> validate_value plan_data = Inr data \<and> Plan_construct P data = Inl cause"
  then show c: "cause = Raised ''ValidationError'' (error_text P data)"
    by (auto simp: Plan_construct_def split: option.splits)
  from a c assms show "generate_plan P llm loads brief
                = (None, Some (''Error (ValidationError): '' @ error_text P data))"
    by (simp add: generate_plan_def try_block_def format_error_message_def)
next
  show "''Invalid JSON response from AI: '' @ msg \<noteq> ''Error (ValidationError): '' @ txt"
    by simp
next
  assume "llm' brief = Inl (JSONDecodeError pmsg)"
  then show "generate_plan P llm' loads brief
                = (None, Some (''Invalid JSON response from AI: '' @ pmsg))"
    by (simp add: generate_plan_def try_block_def)
next
  assume "llm' brief = Inl (Raised cls pmsg)"
  then show "generate_plan P llm' loads brief = (None, Some (format_error_message (Raised cls pmsg)))"
    by (simp add: generate_plan_def try_block_def)
next
  show "format_error_message (Raised cls pmsg) \<noteq> ''Invalid JSON response from AI: '' @ msg"
    by (simp add: format_error_message_def)
next
  assume "CHR '')'' \<notin> set cls"
  then show "format_error_message (Raised cls pmsg) = ''Error (ValidationError): '' @ txt
               \<longleftrightarrow> cls = ''ValidationError'' \<and> pmsg = txt"
    by (rule format_error_message_schema)
qed

theorem generate_plan_error_kinds_witness:
  "generate_plan exact_pydantic (provider_returns (ustr ''oops''))
     (parser_raises (JSONDecodeError ''Expecting value: line 1 column 1 (char 0)''))
     ''Build a todo app''
   = (None, Some ''Invalid JSON response from AI: Expecting value: line 1 column 1 (char 0)'')
   \<and> generate_plan exact_pydantic
     (provider_raises (JSONDecodeError ''Expecting value: line 1 column 1 (char 0)''))
     (parser_raises (JSONDecodeError ''Expecting value: line 1 column 1 (char 0)''))
     ''Build a todo app''
   = (None, Some ''Invalid JSON response from AI: Expecting value: line 1 column 1 (char 0)'')
   \<and> generate_plan exact_pydantic
     (provider_raises (Raised ''APIConnectionError'' ''Connection error.''))
     (parser_raises (JSONDecodeError ''Expecting value: line 1 column 1 (char 0)''))
     ''Build a todo app''
   = (None, Some (format_error_message (Raised ''APIConnectionError'' ''Connection error.'')))
   \<and> format_error_message (Raised ''APIConnectionError'' ''Connection error.'')
       \<noteq> ''Error (ValidationError): Connection error.''
   \<and> generate_plan exact_pydantic (provider_returns (ustr ''{}''))
     (parser_returns (PDict [(''total_weeks'', PStr ''four''), (''risks'', PStr ''abc'')]))
     ''Build a todo app''
   = (None, Some ''Error (ValidationError): validation errors for Plan'')"
proof -
  let ?m = "''Expecting value: line 1 column 1 (char 0)''"
  let ?llm = "provider_returns (ustr ''oops'')"
  let ?loads = "parser_raises (JSONDecodeError ?m)"
  let ?llm1 = "provider_raises (JSONDecodeError ?m)"
  let ?llm2 = "provider_raises (Raised ''APIConnectionError'' ''Connection error.'')"
  have l: "?llm ''Build a todo app'' = Inr (Some (ustr ''oops''))"
    by (simp add: provider_returns_def)
  have p: "?loads (clean_json_response (ustr ''oops'')) = Inl (JSONDecodeError ?m)"
    by (simp add: parser_raises_def)
  have l1: "?llm1 ''Build a todo app'' = Inl (JSONDecodeError ?m)"
    by (simp add: provider_raises_def)
  have l2: "?llm2 ''Build a todo app'' = Inl (Raised ''APIConnectionError'' ''Connection error.'')"
    by (simp add: provider_raises_def)
  have n: "CHR '')'' \<notin> set ''APIConnectionError''" by simp
  note t1 = generate_plan_error_kinds
     [of ?llm "''Build a todo app''" "ustr ''oops''" ?loads ?m exact_pydantic _ _ _ _ ?llm1 ?m,
      OF l]
  note t2 = generate_plan_error_kinds
     [of ?llm "''Build a todo app''" "ustr ''oops''" ?loads ?m exact_pydantic _ _ _
         "''Connection error.''" ?llm2 "''Connection error.''" "''APIConnectionError''",
      OF l]
  have a: "generate_plan exact_pydantic ?llm ?loads ''Build a todo app''
             = (None, Some (''Invalid JSON response from AI: '' @ ?m))"
    using t1 [THEN conjunct1] p by (rule mp)
  have b: "generate_plan exact_pydantic ?llm1 ?loads ''Build a todo app''
             = (None, Some (''Invalid JSON response from AI: '' @ ?m))"
    using t1 [THEN conjunct2, THEN conjunct2, THEN conjunct2, THEN conjunct1] l1 by (rule mp)
  have c: "generate_plan exact_pydantic ?llm2 ?loads ''Build a todo app''
             = (None, Some (format_error_message (Raised ''APIConnectionError'' ''Connection error.'')))"
    using t2 [THEN conjunct2, THEN conjunct2, THEN conjunct2, THEN conjunct2, THEN conjunct1] l2
    by (rule mp)
  have "format_error_message (Raised ''APIConnectionError'' ''Connection error.'')
          = ''Error (ValidationError): '' @ ''Connection error.''
        \<longleftrightarrow> ''APIConnectionError'' = ''ValidationError'' \<and> ''Connection error.'' = ''Connection error.''"
    using t2 [THEN conjunct2, THEN conjunct2, THEN conjunct2, THEN conjunct2, THEN conjunct2,
              THEN conjunct2] n by (rule mp)
  then have d: "format_error_message (Raised ''APIConnectionError'' ''Connection error.'')
       \<noteq> ''Error (ValidationError): Connection error.''" by simp
  let ?llm3 = "provider_returns (ustr ''{}'')"
  let ?v = "PDict [(''total_weeks'', PStr ''four''), (''risks'', PStr ''abc'')]"
  let ?loads3 = "parser_returns ?v"
  let ?data = "[(''total_weeks'', PStr ''four''), (''risks'', PStr ''abc''),
      (''project_name'', PStr ''Untitled Project''),
      (''project_summary'', PStr ''No summary provided''),
      (''milestones'', PList []),
      (''monitoring_checkpoints'', PList []),
      (''parallel_opportunities'', PList [])]"
  let ?cause = "Raised ''ValidationError'' ''validation errors for Plan''"
  have l3: "?llm3 ''Build a todo app'' = Inr (Some (ustr ''{}''))"
    by (simp add: provider_returns_def)
  have p3: "?loads3 (clean_json_response (ustr ''{}'')) = Inr ?v"
    by (simp add: parser_returns_def)
  have v3: "validate_value ?v = Inr ?data"
    by (simp add: validate_json_structure_def ensure_required_def required_fields_def
        ensure_field_def)
  have c3: "Plan_construct exact_pydantic ?data = Inl ?cause"
    by (simp add: Plan_construct_def Plan_fields_def required_def exact_pydantic_def)
  have e3: "error_text exact_pydantic ?data = ''validation errors for Plan''"
    by (simp add: exact_pydantic_def)
  from p3 v3 c3 have h: "?loads3 (clean_json_response (ustr ''{}'')) = Inr ?v
            \<and> validate_value ?v = Inr ?data \<and> Plan_construct exact_pydantic ?data = Inl ?cause"
    by (intro conjI)
  from generate_plan_error_kinds
         [of ?llm3 "''Build a todo app''" "ustr ''{}''" ?loads3 _ exact_pydantic ?v ?data ?cause,
          OF l3, THEN conjunct2, THEN conjunct1, THEN mp, OF h, THEN conjunct2]
  have e: "generate_plan exact_pydantic ?llm3 ?loads3 ''Build a todo app''
   = (None, Some ''Error (ValidationError): validation errors for Plan'')"
    unfolding e3 by simp
  from a b c d e show ?thesis by simp
qed

end
